theory Spec2Isabelle
  imports Complex_Main "HOL-Library.Char_ord" "HOL-Library.List_Lexorder"
    "HOL-Library.Product_Lexorder"
begin

section \<open>Data model of visualization.py\<close>

text \<open>
  The script loads one table of gas-price observations and hands the same table object to
  three renderers in turn. A table (a pandas DataFrame) is a list of rows; a row holds the
  eight columns of the spreadsheet and the three columns the renderers add (\<open>Date\<close>,
  \<open>Latitude\<close>, \<open>Longitude\<close>), which are empty (\<open>None\<close>) in the loaded table.
  A missing cell (NaN, NaT) is \<open>None\<close>. Prices are exact rationals: binary rounding of
  floats is not part of the model. Strings are byte strings; letters outside ASCII are
  left alone by \<open>str_lower\<close>. A Query Time cell is a text, a timestamp the spreadsheet
  already holds as one, or empty.
\<close>

type_synonym date = "nat \<times> nat \<times> nat"

datatype timestamp = Timestamp (ts_date: date) (ts_time: nat)

datatype qcell = Text string | Stamp timestamp | NaT

record row =
  station_id :: string
  station_name :: string
  address :: string
  location :: string
  time_tag :: "string option"
  query_time :: qcell
  regular_price :: "rat option"
  premium_price :: "rat option"
  date_col :: "date option"
  latitude :: "rat option"
  longitude :: "rat option"

type_synonym dataframe = "row list"

text \<open>
  The exceptions that leave a function: an unbound local name of the function itself
  (\<open>NameError\<close>), a key missing in a dictionary, any exception raised while a Location
  string is evaluated (\<open>EvalError\<close>, with its message), a centre the map refuses, a
  spreadsheet that does not load, and the \<open>.str\<close> accessor on a column that is no
  text column (\<open>AttributeError\<close>).
\<close>

datatype exn = NameError string | KeyError string | EvalError string | ValueError string
  | LoadError string | AttributeError string

text \<open>
  What the script takes from outside its own text: the spreadsheet, the timestamp parser
  of \<open>pd.to_datetime\<close>, Python's \<open>eval\<close> on a Location string (a dictionary of
  coordinates, or the message of the exception it raises; likewise the spreadsheet), the
  check \<open>folium.Map\<close> makes of its centre, and
  whether \<open>os.remove\<close> and the save call of a renderer raise at a path (\<open>Some msg\<close>:
  they raise an exception with that message).

  \<open>pd.to_datetime\<close> works on a whole column: it may settle on one format from the
  cells of the column and read every text by it, so what a text parses to depends on the
  other cells. The parser therefore takes the column and the text.
\<close>

record env =
  read_excel :: "string + dataframe"
  parse_datetime :: "qcell list \<Rightarrow> string \<Rightarrow> timestamp option"
  py_eval :: "string \<Rightarrow> string + (string \<times> rat option) list"
  map_raises :: "rat option \<times> rat option \<Rightarrow> string option"
  remove_raises :: "string \<Rightarrow> string option"
  save_raises :: "string \<Rightarrow> string option"

subsection \<open>Rendered artifacts\<close>

record line2d =
  ln_x :: "date list"
  ln_y :: "rat option list"
  ln_label :: string
  ln_linestyle :: string
  ln_marker :: string

record figure =
  fig_size :: "nat \<times> nat"
  fig_lines :: "line2d list"
  fig_xlabel :: string
  fig_ylabel :: string
  fig_title :: string
  fig_legend :: bool
  fig_grid :: bool

record colormap =
  cm_colors :: "string list"
  cm_vmin :: "rat option"
  cm_vmax :: "rat option"
  cm_caption :: string

text \<open>The colour a colormap gives a value is kept as the pair of both.\<close>

datatype colour = Scaled colormap rat

record circle_marker =
  mk_location :: "rat \<times> rat"
  mk_radius :: nat
  mk_popup :: string
  mk_color :: colour
  mk_fill :: bool
  mk_fill_color :: colour
  mk_fill_opacity :: rat

datatype map_child = FeatureGroup string "circle_marker list" | Legend colormap
  | LayerControl

record folium_map =
  fm_location :: "rat option \<times> rat option"
  fm_zoom_start :: nat
  fm_children :: "map_child list"

record trace =
  tr_x :: "qcell list"
  tr_y :: "rat option list"
  tr_mode :: string
  tr_name :: string
  tr_color :: string
  tr_size :: nat
  tr_symbol :: "string option"
  tr_hovertext :: "string list"
  tr_hoverinfo :: string
  tr_row :: nat
  tr_col :: nat

record plotly_figure =
  pf_subplot_titles :: "string list"
  pf_traces :: "trace list"
  pf_height :: nat
  pf_title_text :: string
  pf_template :: string
  pf_legend_title_text :: string
  pf_xaxis_title :: string
  pf_yaxis_title :: string
  pf_xaxis2_title :: string
  pf_yaxis2_title :: string

datatype artifact = PNG figure nat | MapHTML folium_map | PlotHTML plotly_figure
  | Other string

text \<open>
  A log record is its message; the two threshold warnings keep the numbers they print
  (the price kind, the minimum and the maximum) instead of their float rendering.
\<close>

datatype log_record = Debug string | InvalidThresholds string "rat option" "rat option"

record state =
  fs :: "string \<Rightarrow> artifact option"
  logfile :: "log_record list"

definition hm_output_path :: string where
  "hm_output_path = ''./output/heatmap.html''"

definition ts_output_path :: string where
  "ts_output_path = ''./output/time_series.png''"

definition it_output_path :: string where
  "it_output_path = ''./output/interactive_graph.html''"

section \<open>Library operations the renderers call\<close>

subsection \<open>Strings\<close>

definition lower_char :: "char \<Rightarrow> char" where
  "lower_char c =
     (case map_of (zip ''ABCDEFGHIJKLMNOPQRSTUVWXYZ'' ''abcdefghijklmnopqrstuvwxyz'') c of
        Some l \<Rightarrow> l
      | None \<Rightarrow> c)"

definition str_lower :: "string \<Rightarrow> string" where
  "str_lower s = map lower_char s"

definition is_space :: "char \<Rightarrow> bool" where
  "is_space c =
     (let n = (of_char c :: nat) in n = 32 \<or> (9 \<le> n \<and> n \<le> 13) \<or> (28 \<le> n \<and> n \<le> 31))"

definition str_strip :: "string \<Rightarrow> string" where
  "str_strip s = rev (dropWhile is_space (rev (dropWhile is_space s)))"

definition digit :: "nat \<Rightarrow> char" where
  "digit n = ''0123456789'' ! (n mod 10)"

fun digits :: "nat \<Rightarrow> string" where
  "digits n = (if n < 10 then [digit n] else digits (n div 10) @ [digit n])"

definition round_half_even :: "rat \<Rightarrow> int" where
  "round_half_even x =
     (let f = \<lfloor>x\<rfloor>; d = x - of_int f
      in if d < 1 / 2 then f else if 1 / 2 < d then f + 1 else if even f then f else f + 1)"

text \<open>The format \<open>:.2f\<close>: sign, integer part, point, two decimals.\<close>

definition format_2f :: "rat \<Rightarrow> string" where
  "format_2f x =
     (let a = nat \<bar>round_half_even (x * 100)\<bar>
      in (if x < 0 then ''-'' else []) @ digits (a div 100) @ ''.''
         @ [digit (a div 10), digit a])"

subsection \<open>Series and frames\<close>

text \<open>\<open>Series.unique\<close>: the distinct values in order of first appearance, NaN included.\<close>

definition unique :: "'a list \<Rightarrow> 'a list" where
  "unique xs = rev (remdups (rev xs))"

definition mean :: "rat list \<Rightarrow> rat" where
  "mean xs = sum_list xs / of_nat (length xs)"

text \<open>Mean, minimum and maximum of a column are NaN on an empty column.\<close>

definition series_mean :: "rat list \<Rightarrow> rat option" where
  "series_mean xs = (if xs = [] then None else Some (mean xs))"

definition series_min :: "rat list \<Rightarrow> rat option" where
  "series_min xs = (case xs of [] \<Rightarrow> None | x # ys \<Rightarrow> Some (fold min ys x))"

definition series_max :: "rat list \<Rightarrow> rat option" where
  "series_max xs = (case xs of [] \<Rightarrow> None | x # ys \<Rightarrow> Some (fold max ys x))"

text \<open>\<open>a < b\<close> on floats: false as soon as one side is NaN.\<close>

fun lt_float :: "rat option \<Rightarrow> rat option \<Rightarrow> bool" where
  "lt_float (Some a) (Some b) = (a < b)"
| "lt_float _ _ = False"

definition clip :: "rat \<Rightarrow> rat \<Rightarrow> rat \<Rightarrow> rat" where
  "clip lower upper x = min (max x lower) upper"

text \<open>
  \<open>pd.to_datetime(column, errors="coerce")\<close> on one cell of the column: a text becomes
  the timestamp the parser reads in it within that column, or NaT; a timestamp and an
  empty cell stay.
\<close>

fun to_datetime :: "env \<Rightarrow> qcell list \<Rightarrow> qcell \<Rightarrow> qcell" where
  "to_datetime e col (Text s) =
     (case parse_datetime e col s of Some t \<Rightarrow> Stamp t | None \<Rightarrow> NaT)"
| "to_datetime e col (Stamp t) = Stamp t"
| "to_datetime e col NaT = NaT"

text \<open>
  The \<open>.str\<close> accessor raises on a column that is no text column. The Time Tag column
  is one when the table has no rows or some cell of it holds a text; a column of a table
  with rows and no text in it is loaded as a column of floats, and \<open>dropna\<close> keeps
  that type.
\<close>

definition text_column :: "string option list \<Rightarrow> bool" where
  "text_column col = (col = [] \<or> list_ex (\<lambda>t. t \<noteq> None) col)"

definition str_accessor_error :: exn where
  "str_accessor_error = AttributeError ''Can only use .str accessor with string values!''"

fun dt_date :: "qcell \<Rightarrow> date option" where
  "dt_date (Stamp t) = Some (ts_date t)"
| "dt_date _ = None"

text \<open>
  Grouping with an aggregate \<open>mean\<close>: one entry per distinct key, keys in ascending
  order, the mean taken over the values of the key's rows.
\<close>

definition group_mean :: "('k::linorder \<times> rat) list \<Rightarrow> ('k \<times> rat) list" where
  "group_mean kvs =
     map (\<lambda>k. (k, mean (map snd (filter (\<lambda>kv. fst kv = k) kvs))))
       (sort (remdups (map fst kvs)))"

text \<open>
  \<open>pivot_table(index="Date", columns="Time Tag", values=v, aggfunc="mean")\<close>: rows with
  a missing key are left out by the grouping, a missing value is skipped by the mean, and
  a group with no value at all is dropped. The cells are the groups that remain; index
  and columns are their dates and tags in ascending order.
\<close>

record pivot =
  pv_index :: "date list"
  pv_columns :: "string list"
  pv_cells :: "((date \<times> string) \<times> rat) list"

definition pivot_entry :: "(row \<Rightarrow> rat option) \<Rightarrow> row \<Rightarrow> ((date \<times> string) \<times> rat) option" where
  "pivot_entry v r =
     (case (date_col r, time_tag r, v r) of
        (Some d, Some t, Some x) \<Rightarrow> Some ((d, t), x)
      | _ \<Rightarrow> None)"

definition pivot_table :: "(row \<Rightarrow> rat option) \<Rightarrow> dataframe \<Rightarrow> pivot" where
  "pivot_table v df =
     (let cells = group_mean (List.map_filter (pivot_entry v) df)
      in \<lparr>pv_index = sort (remdups (map (fst \<circ> fst) cells)),
          pv_columns = sort (remdups (map (snd \<circ> fst) cells)),
          pv_cells = cells\<rparr>)"

text \<open>
  A column of the pivot, \<open>pivot[tag]\<close>: one value for each date of the index, NaN where
  the tag has no cell.
\<close>

definition pivot_column :: "pivot \<Rightarrow> string \<Rightarrow> rat option list" where
  "pivot_column p tag = map (\<lambda>d. map_of (pv_cells p) (d, tag)) (pv_index p)"

text \<open>
  The \<open>try\<close> block every renderer ends with: delete the file if it is there, save,
  log; any exception of the two calls is caught and logged.
\<close>

definition add_log :: "log_record \<Rightarrow> state \<Rightarrow> state" where
  "add_log m s = s\<lparr>logfile := logfile s @ [m]\<rparr>"

definition delete_then_save :: "env \<Rightarrow> string \<Rightarrow> artifact \<Rightarrow> string \<Rightarrow> state \<Rightarrow> state" where
  "delete_then_save e path art saved s =
     (if fs s path \<noteq> None then
        (let s1 = add_log (Debug (''File '' @ path @ '' already exists. Deleting it.'')) s
         in case remove_raises e path of
              Some msg \<Rightarrow> add_log (Debug (''An error occurred: '' @ msg)) s1
            | None \<Rightarrow>
                (let s2 = s1\<lparr>fs := (fs s1)(path := None)\<rparr>
                 in case save_raises e path of
                      Some msg \<Rightarrow> add_log (Debug (''An error occurred: '' @ msg)) s2
                    | None \<Rightarrow> add_log (Debug saved) (s2\<lparr>fs := (fs s2)(path := Some art)\<rparr>)))
      else
        (case save_raises e path of
           Some msg \<Rightarrow> add_log (Debug (''An error occurred: '' @ msg)) s
         | None \<Rightarrow> add_log (Debug saved) (s\<lparr>fs := (fs s)(path := Some art)\<rparr>)))"

section \<open>plotTimeGraph\<close>

text \<open>
  Lines 31 to 34. The first assignment writes the parsed column into the table the caller
  passed; \<open>dropna\<close> then returns a new table, and the two later assignments go to that
  one.
\<close>

definition coerce_query_time :: "env \<Rightarrow> dataframe \<Rightarrow> dataframe" where
  "coerce_query_time e df =
     (let col = map query_time df
      in map (\<lambda>r. r\<lparr>query_time := to_datetime e col (query_time r)\<rparr>) df)"

definition dropna_query_time :: "dataframe \<Rightarrow> dataframe" where
  "dropna_query_time df = filter (\<lambda>r. query_time r \<noteq> NaT) df"

definition add_date :: "dataframe \<Rightarrow> dataframe" where
  "add_date df = map (\<lambda>r. r\<lparr>date_col := dt_date (query_time r)\<rparr>) df"

definition normalize_time_tag :: "dataframe \<Rightarrow> dataframe" where
  "normalize_time_tag df =
     map (\<lambda>r. r\<lparr>time_tag := map_option (\<lambda>t. str_strip (str_lower t)) (time_tag r)\<rparr>) df"

definition time_frame :: "dataframe \<Rightarrow> dataframe" where
  "time_frame df = normalize_time_tag (add_date (dropna_query_time df))"

definition tag_lines :: "pivot \<Rightarrow> pivot \<Rightarrow> string option \<Rightarrow> line2d list" where
  "tag_lines pivot_regular pivot_premium tag =
     (case tag of
        None \<Rightarrow> []
      | Some t \<Rightarrow>
          (if t \<in> set (pv_columns pivot_regular) then
             [\<lparr>ln_x = pv_index pivot_regular, ln_y = pivot_column pivot_regular t,
               ln_label = ''Regular '' @ t, ln_linestyle = ''-'', ln_marker = ''o''\<rparr>]
           else [])
          @ (if t \<in> set (pv_columns pivot_premium) then
               [\<lparr>ln_x = pv_index pivot_premium, ln_y = pivot_column pivot_premium t,
                 ln_label = ''Premium '' @ t, ln_linestyle = ''--'', ln_marker = ''x''\<rparr>]
             else []))"

definition time_figure :: "dataframe \<Rightarrow> figure" where
  "time_figure df =
     (let pivot_regular = pivot_table regular_price df;
          pivot_premium = pivot_table premium_price df
      in \<lparr>fig_size = (12, 6),
          fig_lines =
            concat (map (tag_lines pivot_regular pivot_premium) (unique (map time_tag df))),
          fig_xlabel = ''Date'', fig_ylabel = ''Price (cents/liter)'',
          fig_title = ''Gas Price Trends by Time of Day'',
          fig_legend = True, fig_grid = True\<rparr>)"

definition ts_saved :: string where
  "ts_saved = ''Time graph saved to '' @ [CHR 0x27] @ ts_output_path @ [CHR 0x27] @ ''.''"

text \<open>
  The renderer raises at line 34 when Time Tag is no text column (and the script ends);
  otherwise it returns the caller's table as it leaves it (the \<open>Query Time\<close> column
  parsed in place) and the state after the save.
\<close>

definition plotTimeGraph :: "env \<Rightarrow> dataframe \<Rightarrow> state \<Rightarrow> exn + dataframe \<times> state" where
  "plotTimeGraph e df s =
     (let df_caller = coerce_query_time e df
      in if \<not> text_column (map time_tag df) then Inl str_accessor_error
         else
           (let df1 = time_frame df_caller
            in Inr (df_caller,
                    delete_then_save e ts_output_path (PNG (time_figure df1) 300) ts_saved s)))"

section \<open>plotHeatMap\<close>

text \<open>
  Lines 85 and 86: \<open>eval(x)["Latitude"]\<close> on every row, in order; the first row whose
  Location does not evaluate, or has no such key, raises. The column is then assigned in
  the table the caller passed.
\<close>

fun apply_location :: "env \<Rightarrow> string \<Rightarrow> dataframe \<Rightarrow> exn + rat option list" where
  "apply_location e k [] = Inr []"
| "apply_location e k (r # rs) =
     (case py_eval e (location r) of
        Inl msg \<Rightarrow> Inl (EvalError msg)
      | Inr d \<Rightarrow>
          (case map_of d k of
             None \<Rightarrow> Inl (KeyError k)
           | Some v \<Rightarrow>
               (case apply_location e k rs of
                  Inl x \<Rightarrow> Inl x
                | Inr vs \<Rightarrow> Inr (v # vs))))"

definition set_latitude :: "dataframe \<Rightarrow> rat option list \<Rightarrow> dataframe" where
  "set_latitude df vs = map (\<lambda>(r, v). r\<lparr>latitude := v\<rparr>) (zip df vs)"

definition set_longitude :: "dataframe \<Rightarrow> rat option list \<Rightarrow> dataframe" where
  "set_longitude df vs = map (\<lambda>(r, v). r\<lparr>longitude := v\<rparr>) (zip df vs)"

definition add_coordinates :: "env \<Rightarrow> dataframe \<Rightarrow> exn + dataframe" where
  "add_coordinates e df =
     (case apply_location e ''Latitude'' df of
        Inl x \<Rightarrow> Inl x
      | Inr lats \<Rightarrow>
          (let df_lat = set_latitude df lats
           in case apply_location e ''Longitude'' df_lat of
                Inl x \<Rightarrow> Inl x
              | Inr lons \<Rightarrow> Inr (set_longitude df_lat lons)))"

text \<open>Lines 89 to 93, on the new table \<open>dropna\<close> returns.\<close>

definition dropna_prices :: "dataframe \<Rightarrow> dataframe" where
  "dropna_prices df = filter (\<lambda>r. regular_price r \<noteq> None \<and> premium_price r \<noteq> None) df"

definition clip_regular :: "dataframe \<Rightarrow> dataframe" where
  "clip_regular df = map (\<lambda>r. r\<lparr>regular_price := map_option (clip 100 200) (regular_price r)\<rparr>) df"

definition clip_premium :: "dataframe \<Rightarrow> dataframe" where
  "clip_premium df = map (\<lambda>r. r\<lparr>premium_price := map_option (clip 150 250) (premium_price r)\<rparr>) df"

text \<open>
  Lines 96 to 98: one row per (Station ID, Station Name, Latitude, Longitude), keys in
  ascending order, with the means of both prices. The grouping leaves out a row with a NaN
  coordinate; the prices are all present after line 89.
\<close>

type_synonym station_key = "string \<times> string \<times> rat \<times> rat"

record station_avg =
  sa_station_id :: string
  sa_station_name :: string
  sa_latitude :: rat
  sa_longitude :: rat
  sa_regular :: rat
  sa_premium :: rat

definition station_key_of :: "row \<Rightarrow> station_key option" where
  "station_key_of r =
     (case (latitude r, longitude r) of
        (Some la, Some lo) \<Rightarrow> Some (station_id r, station_name r, la, lo)
      | _ \<Rightarrow> None)"

definition station_entry :: "row \<Rightarrow> (station_key \<times> rat \<times> rat) option" where
  "station_entry r =
     (case (station_key_of r, regular_price r, premium_price r) of
        (Some k, Some x, Some y) \<Rightarrow> Some (k, x, y)
      | _ \<Rightarrow> None)"

definition station_group :: "(station_key \<times> rat \<times> rat) list \<Rightarrow> station_key \<Rightarrow> (rat \<times> rat) list" where
  "station_group es k = map snd (filter (\<lambda>e. fst e = k) es)"

definition station_row :: "station_key \<Rightarrow> rat \<Rightarrow> rat \<Rightarrow> station_avg" where
  "station_row k regular premium =
     (case k of (i, n, la, lo) \<Rightarrow>
        \<lparr>sa_station_id = i, sa_station_name = n, sa_latitude = la, sa_longitude = lo,
         sa_regular = regular, sa_premium = premium\<rparr>)"

definition groupby_station :: "dataframe \<Rightarrow> station_avg list" where
  "groupby_station df =
     (let es = List.map_filter station_entry df
      in map (\<lambda>k. station_row k (mean (map fst (station_group es k)))
                 (mean (map snd (station_group es k))))
           (sort (remdups (map fst es))))"

definition heat_frame :: "dataframe \<Rightarrow> dataframe" where
  "heat_frame df = clip_premium (clip_regular (dropna_prices df))"

text \<open>The bodies of the two marker loops, lines 137 to 150 and 158 to 171.\<close>

definition regular_marker :: "colormap \<Rightarrow> station_avg \<Rightarrow> circle_marker" where
  "regular_marker regular_color_scale row =
     (let color = Scaled regular_color_scale (sa_regular row)
      in \<lparr>mk_location = (sa_latitude row, sa_longitude row), mk_radius = 7,
          mk_popup = ''Station: '' @ sa_station_name row @ ''<br>''
            @ ''Regular Price: '' @ format_2f (sa_regular row),
          mk_color = color, mk_fill = True, mk_fill_color = color, mk_fill_opacity = 8 / 10\<rparr>)"

definition premium_marker :: "colormap \<Rightarrow> station_avg \<Rightarrow> circle_marker" where
  "premium_marker premium_color_scale row =
     (let color = Scaled premium_color_scale (sa_premium row)
      in \<lparr>mk_location = (sa_latitude row, sa_longitude row), mk_radius = 7,
          mk_popup = ''Station: '' @ sa_station_name row @ ''<br>''
            @ ''Premium Price: '' @ format_2f (sa_premium row),
          mk_color = color, mk_fill = True, mk_fill_color = color, mk_fill_opacity = 8 / 10\<rparr>)"

text \<open>
  Lines 100 to 177. The two colour scales are local names that exist only after the
  branch that assigns them (\<open>None\<close>: the name is unbound); reading an unbound name
  raises NameError.
\<close>

definition heat_map :: "env \<Rightarrow> station_avg list \<Rightarrow> state \<Rightarrow> exn + folium_map \<times> state" where
  "heat_map e avg_prices s =
     (let min_regular = series_min (map sa_regular avg_prices);
          max_regular = series_max (map sa_regular avg_prices);
          regular_color_scale =
            (if lt_float min_regular max_regular then
               Some \<lparr>cm_colors = [''green'', ''yellow'', ''red''], cm_vmin = min_regular,
                     cm_vmax = max_regular, cm_caption = ''Regular Gas Prices''\<rparr>
             else None);
          s1 = (if lt_float min_regular max_regular then s
                else add_log (InvalidThresholds ''regular'' min_regular max_regular) s);
          min_premium = series_min (map sa_premium avg_prices);
          max_premium = series_max (map sa_premium avg_prices);
          premium_color_scale =
            (if lt_float min_premium max_premium then
               Some \<lparr>cm_colors = [''blue'', ''purple'', ''pink''], cm_vmin = min_premium,
                     cm_vmax = max_premium, cm_caption = ''Premium Gas Prices''\<rparr>
             else None);
          s2 = (if lt_float min_premium max_premium then s1
                else add_log (InvalidThresholds ''premium'' min_premium max_premium) s1);
          map_center = (series_mean (map sa_latitude avg_prices),
                        series_mean (map sa_longitude avg_prices))
      in case map_raises e map_center of
           Some msg \<Rightarrow> Inl (ValueError msg)
         | None \<Rightarrow>
             (case (if lt_float min_regular max_regular then
                      (case regular_color_scale of
                         None \<Rightarrow> Inl (NameError ''regular_color_scale'')
                       | Some c \<Rightarrow>
                           Inr [FeatureGroup ''Regular Gas Prices'' (map (regular_marker c) avg_prices),
                                Legend c])
                    else Inr []) of
                Inl x \<Rightarrow> Inl x
              | Inr regular_children \<Rightarrow>
                  (case (if lt_float min_premium max_premium then
                           (case premium_color_scale of
                              None \<Rightarrow> Inl (NameError ''premium_color_scale'')
                            | Some c \<Rightarrow>
                                Inr [FeatureGroup ''Premium Gas Prices''
                                       (map (premium_marker c) avg_prices),
                                     Legend c])
                         else Inr []) of
                     Inl x \<Rightarrow> Inl x
                   | Inr premium_children \<Rightarrow>
                       Inr (\<lparr>fm_location = map_center, fm_zoom_start = 12,
                             fm_children = regular_children @ premium_children @ [LayerControl]\<rparr>,
                            s2))))"

definition hm_saved :: string where
  "hm_saved = ''Interactive map with toggleable layers and legends saved as ''
     @ [CHR 0x27] @ ''gas_prices_toggle_layers_with_legends.html'' @ [CHR 0x27]
     @ ''. Open this file to view the map.''"

text \<open>
  The renderer either raises (and the script ends) or returns the caller's table as it
  leaves it, with the two coordinate columns added, and the state after the save.
\<close>

definition plotHeatMap :: "env \<Rightarrow> dataframe \<Rightarrow> state \<Rightarrow> exn + dataframe \<times> state" where
  "plotHeatMap e df s =
     (case add_coordinates e df of
        Inl x \<Rightarrow> Inl x
      | Inr df_caller \<Rightarrow>
          (let avg_prices = groupby_station (heat_frame df_caller)
           in case heat_map e avg_prices s of
                Inl x \<Rightarrow> Inl x
              | Inr (map_gas_prices, s1) \<Rightarrow>
                  Inr (df_caller,
                       delete_then_save e hm_output_path (MapHTML map_gas_prices)
                         hm_saved s1)))"

section \<open>plotInteractive\<close>

definition time_colors :: "(string \<times> string) list" where
  "time_colors = [(''morning'', ''orange''), (''afternoon'', ''green''),
     (''evening'', ''blue''), (''midnight'', ''purple'')]"

text \<open>\<open>time_colors.get(tag, "gray")\<close>; a NaN tag is no key of the dictionary.\<close>

definition tag_color :: "string option \<Rightarrow> string" where
  "tag_color tag =
     (case tag of
        None \<Rightarrow> ''gray''
      | Some t \<Rightarrow> (case map_of time_colors t of None \<Rightarrow> ''gray'' | Some c \<Rightarrow> c))"

text \<open>A tag inside an f-string; NaN prints as \<open>nan\<close>.\<close>

definition tag_text :: "string option \<Rightarrow> string" where
  "tag_text tag = (case tag of None \<Rightarrow> ''nan'' | Some t \<Rightarrow> t)"

text \<open>\<open>df[df["Time Tag"] == tag]\<close>: NaN equals nothing, itself included.\<close>

definition rows_with_tag :: "dataframe \<Rightarrow> string option \<Rightarrow> dataframe" where
  "rows_with_tag df tag = filter (\<lambda>r. tag \<noteq> None \<and> time_tag r = tag) df"

definition hover_text :: "row \<Rightarrow> string" where
  "hover_text row = ''Station: '' @ station_name row @ ''<br>ID: '' @ station_id row
     @ ''<br>Add: '' @ address row"

definition regular_trace :: "dataframe \<Rightarrow> string option \<Rightarrow> trace" where
  "regular_trace df tag =
     (let sub_df = rows_with_tag df tag
      in \<lparr>tr_x = map query_time sub_df, tr_y = map regular_price sub_df,
          tr_mode = ''markers'', tr_name = ''Regular - '' @ tag_text tag,
          tr_color = tag_color tag, tr_size = 9, tr_symbol = None,
          tr_hovertext = map hover_text sub_df, tr_hoverinfo = ''text+x+y'',
          tr_row = 1, tr_col = 1\<rparr>)"

definition premium_trace :: "dataframe \<Rightarrow> string option \<Rightarrow> trace" where
  "premium_trace df tag =
     (let sub_df = rows_with_tag df tag
      in \<lparr>tr_x = map query_time sub_df, tr_y = map premium_price sub_df,
          tr_mode = ''markers'', tr_name = ''Premium - '' @ tag_text tag,
          tr_color = tag_color tag, tr_size = 9, tr_symbol = Some ''diamond'',
          tr_hovertext = map hover_text sub_df, tr_hoverinfo = ''text+x+y'',
          tr_row = 2, tr_col = 1\<rparr>)"

definition interactive_figure :: "dataframe \<Rightarrow> plotly_figure" where
  "interactive_figure df =
     \<lparr>pf_subplot_titles = [''Regular Gas Prices'', ''Premium Gas Prices''],
      pf_traces = map (regular_trace df) (unique (map time_tag df))
        @ map (premium_trace df) (unique (map time_tag df)),
      pf_height = 1600,
      pf_title_text = ''Gas Prices by Time of Day and Type (Interactive)'',
      pf_template = ''plotly_white'',
      pf_legend_title_text = ''Fuel Type & Time Tag'',
      pf_xaxis_title = ''Date'', pf_yaxis_title = ''Price (cents/liter)'',
      pf_xaxis2_title = ''Date'', pf_yaxis2_title = ''Price (cents/liter)''\<rparr>"

definition it_saved :: string where
  "it_saved = ''Interactive graph saved as '' @ [CHR 0x27] @ ''interactive_graph.html''
     @ [CHR 0x27] @ ''. Open this file to view the graph.''"

text \<open>
  Line 194 copies the table first, so the caller's table comes back as it was passed,
  unless line 198 raises because Time Tag is no text column.
\<close>

definition plotInteractive :: "env \<Rightarrow> dataframe \<Rightarrow> state \<Rightarrow> exn + dataframe \<times> state" where
  "plotInteractive e df s =
     (let df_copy = df
      in if \<not> text_column (map time_tag df_copy) then Inl str_accessor_error
         else
           (let df1 = time_frame (coerce_query_time e df_copy)
            in Inr (df,
                    delete_then_save e it_output_path (PlotHTML (interactive_figure df1))
                      it_saved s)))"

section \<open>The module body\<close>

text \<open>
  Lines 24 to 27 and 269 to 271: log, load, then the three renderers on the one loaded
  table, each receiving it as the one before left it. An exception outside the
  \<open>try\<close> blocks ends the run.
\<close>

definition main :: "env \<Rightarrow> state \<Rightarrow> exn + dataframe \<times> state" where
  "main e s =
     (let s0 = add_log (Debug (CHR 0x0A # ''Visualizing gas prices data...'')) s
      in case read_excel e of
           Inl msg \<Rightarrow> Inl (LoadError msg)
         | Inr df \<Rightarrow>
             (case plotTimeGraph e df s0 of
                Inl x \<Rightarrow> Inl x
              | Inr (df1, s1) \<Rightarrow>
                  (case plotHeatMap e df1 s1 of
                     Inl x \<Rightarrow> Inl x
                   | Inr (df2, s2) \<Rightarrow> plotInteractive e df2 s2)))"

section \<open>Notions used to state the properties\<close>

text \<open>
  A row has an unparseable timestamp, within the Query Time column of its table, when its
  cell is a text in which the parser reads no timestamp there, or is empty.
\<close>

definition unparseable :: "env \<Rightarrow> qcell list \<Rightarrow> row \<Rightarrow> bool" where
  "unparseable e col r =
     (case query_time r of
        Text s \<Rightarrow> parse_datetime e col s = None
      | Stamp t \<Rightarrow> False
      | NaT \<Rightarrow> True)"

text \<open>
  What a row with a timestamp that parses becomes under the pivots and traces: the row
  with the parsed timestamp, its calendar date and its tag in lower case without outer
  blanks. \<open>parsed_rows\<close> are these rows of a table, in table order.
\<close>

definition derived_row :: "timestamp \<Rightarrow> row \<Rightarrow> row" where
  "derived_row t r =
     r\<lparr>query_time := Stamp t, date_col := Some (ts_date t),
       time_tag := map_option (\<lambda>tag. str_strip (str_lower tag)) (time_tag r)\<rparr>"

definition parsed_row :: "env \<Rightarrow> qcell list \<Rightarrow> row \<Rightarrow> row option" where
  "parsed_row e col r =
     (case query_time r of
        Text s \<Rightarrow> map_option (\<lambda>t. derived_row t r) (parse_datetime e col s)
      | Stamp t \<Rightarrow> Some (derived_row t r)
      | NaT \<Rightarrow> None)"

definition parsed_rows :: "env \<Rightarrow> dataframe \<Rightarrow> dataframe" where
  "parsed_rows e df = List.map_filter (parsed_row e (map query_time df)) df"

text \<open>
  Pulling a price to the nearest bound, as the specification words the clipping, and the
  price pairs of the rows of one station that survive the missing-price drop, in table
  order.
\<close>

definition nearest_bound :: "rat \<Rightarrow> rat \<Rightarrow> rat \<Rightarrow> rat" where
  "nearest_bound lo hi x = (if x < lo then lo else if hi < x then hi else x)"

definition surviving_prices :: "dataframe \<Rightarrow> station_key \<Rightarrow> (rat \<times> rat) list" where
  "surviving_prices df k =
     List.map_filter
       (\<lambda>r. case (regular_price r, premium_price r) of
              (Some x, Some y) \<Rightarrow> if station_key_of r = Some k then Some (x, y) else None
            | _ \<Rightarrow> None)
       df"

text \<open>
  The test \<open>min < max\<close> of lines 103 and 136 (118 and 157 for premium) on the
  aggregated table, and the colour scale lines 104 to 109 (119 to 124) build from it.
\<close>

definition regular_valid :: "station_avg list \<Rightarrow> bool" where
  "regular_valid avg_prices =
     lt_float (series_min (map sa_regular avg_prices)) (series_max (map sa_regular avg_prices))"

definition premium_valid :: "station_avg list \<Rightarrow> bool" where
  "premium_valid avg_prices =
     lt_float (series_min (map sa_premium avg_prices)) (series_max (map sa_premium avg_prices))"

definition regular_scale :: "station_avg list \<Rightarrow> colormap" where
  "regular_scale avg_prices =
     \<lparr>cm_colors = [''green'', ''yellow'', ''red''],
      cm_vmin = series_min (map sa_regular avg_prices),
      cm_vmax = series_max (map sa_regular avg_prices), cm_caption = ''Regular Gas Prices''\<rparr>"

definition premium_scale :: "station_avg list \<Rightarrow> colormap" where
  "premium_scale avg_prices =
     \<lparr>cm_colors = [''blue'', ''purple'', ''pink''],
      cm_vmin = series_min (map sa_premium avg_prices),
      cm_vmax = series_max (map sa_premium avg_prices), cm_caption = ''Premium Gas Prices''\<rparr>"

definition regular_warning :: "station_avg list \<Rightarrow> log_record" where
  "regular_warning avg_prices =
     InvalidThresholds ''regular'' (series_min (map sa_regular avg_prices))
       (series_max (map sa_regular avg_prices))"

definition premium_warning :: "station_avg list \<Rightarrow> log_record" where
  "premium_warning avg_prices =
     InvalidThresholds ''premium'' (series_min (map sa_premium avg_prices))
       (series_max (map sa_premium avg_prices))"

definition regular_layer :: "station_avg list \<Rightarrow> map_child list" where
  "regular_layer avg_prices =
     [FeatureGroup ''Regular Gas Prices'' (map (regular_marker (regular_scale avg_prices)) avg_prices),
      Legend (regular_scale avg_prices)]"

definition premium_layer :: "station_avg list \<Rightarrow> map_child list" where
  "premium_layer avg_prices =
     [FeatureGroup ''Premium Gas Prices'' (map (premium_marker (premium_scale avg_prices)) avg_prices),
      Legend (premium_scale avg_prices)]"

definition map_center :: "station_avg list \<Rightarrow> rat option \<times> rat option" where
  "map_center avg_prices =
     (series_mean (map sa_latitude avg_prices), series_mean (map sa_longitude avg_prices))"


text \<open>
  The message of the exception the \<open>try\<close> block of a renderer meets at a path, if it
  meets one; the files that block leaves; and the environment in which neither
  \<open>os.remove\<close> nor a save ever raises.
\<close>

definition step_raises :: "env \<Rightarrow> state \<Rightarrow> string \<Rightarrow> string option" where
  "step_raises e s path =
     (if fs s path \<noteq> None then
        (case remove_raises e path of Some msg \<Rightarrow> Some msg | None \<Rightarrow> save_raises e path)
      else save_raises e path)"

definition no_io_errors :: "env \<Rightarrow> env" where
  "no_io_errors e = e\<lparr>remove_raises := (\<lambda>p. None), save_raises := (\<lambda>p. None)\<rparr>"

text \<open>
  What the \<open>try\<close> block leaves at its path, from what was there before: the old file
  when the deletion raises, nothing when the save raises, the new artifact otherwise.
\<close>

definition file_after :: "env \<Rightarrow> string \<Rightarrow> artifact \<Rightarrow> artifact option \<Rightarrow> artifact option" where
  "file_after e path art old =
     (if old \<noteq> None \<and> remove_raises e path \<noteq> None then old
      else if save_raises e path \<noteq> None then None
      else Some art)"

text \<open>Two environments with the same spreadsheet, parser, \<open>eval\<close> and map check.\<close>

definition same_data :: "env \<Rightarrow> env \<Rightarrow> bool" where
  "same_data e e' =
     (read_excel e' = read_excel e \<and> parse_datetime e' = parse_datetime e
      \<and> py_eval e' = py_eval e \<and> map_raises e' = map_raises e)"

text \<open>The map and the warnings of lines 100 to 177, when the centre is accepted.\<close>

definition built_map :: "station_avg list \<Rightarrow> folium_map" where
  "built_map avg_prices =
     \<lparr>fm_location = map_center avg_prices, fm_zoom_start = 12,
      fm_children = (if regular_valid avg_prices then regular_layer avg_prices else [])
        @ (if premium_valid avg_prices then premium_layer avg_prices else [])
        @ [LayerControl]\<rparr>"

definition threshold_warnings :: "station_avg list \<Rightarrow> log_record list" where
  "threshold_warnings avg_prices =
     (if regular_valid avg_prices then [] else [regular_warning avg_prices])
     @ (if premium_valid avg_prices then [] else [premium_warning avg_prices])"

text \<open>
  What a run computes from its data alone: the exception that ends it outside the
  \<open>try\<close> blocks, or the table as the renderers leave it and the three artifacts they
  hand to their save steps.
\<close>

definition renderings :: "env \<Rightarrow> exn + dataframe \<times> artifact \<times> artifact \<times> artifact" where
  "renderings e =
     (case read_excel e of
        Inl msg \<Rightarrow> Inl (LoadError msg)
      | Inr df \<Rightarrow>
          if \<not> text_column (map time_tag df) then Inl str_accessor_error
          else
            (let df1 = coerce_query_time e df
             in case add_coordinates e df1 of
                  Inl x \<Rightarrow> Inl x
                | Inr df2 \<Rightarrow>
                    (let avg_prices = groupby_station (heat_frame df2)
                     in case map_raises e (map_center avg_prices) of
                          Some msg \<Rightarrow> Inl (ValueError msg)
                        | None \<Rightarrow>
                            Inr (df2, PNG (time_figure (time_frame df1)) 300,
                                 MapHTML (built_map avg_prices),
                                 PlotHTML (interactive_figure
                                   (time_frame (coerce_query_time e df2)))))))"

subsection \<open>Example inputs\<close>

definition observation ::
  "string \<times> string \<times> string \<times> string \<Rightarrow> qcell \<Rightarrow> string \<Rightarrow> rat \<Rightarrow> rat \<Rightarrow> row" where
  "observation station q tag regular premium =
     (case station of (i, n, a, l) \<Rightarrow>
        \<lparr>station_id = i, station_name = n, address = a, location = l,
         time_tag = Some tag, query_time = q,
         regular_price = Some regular, premium_price = Some premium,
         date_col = None, latitude = None, longitude = None\<rparr>)"

text \<open>The three rows of the end-to-end scenario, for one station on one day.\<close>

definition scenario ::
  "string \<times> string \<times> string \<times> string \<Rightarrow> date \<Rightarrow> nat \<Rightarrow> nat \<Rightarrow> nat \<Rightarrow> dataframe" where
  "scenario station d t1 t2 t3 =
     [observation station (Stamp (Timestamp d t1)) ''Morning'' 110 160,
      observation station (Stamp (Timestamp d t2)) ''morning '' 130 180,
      observation station (Stamp (Timestamp d t3)) ''Evening'' 999 5]"

definition shell :: "string \<times> string \<times> string \<times> string" where
  "shell = (''S1'', ''Shell'', ''1 Main St'', ''A'')"

definition esso :: "string \<times> string \<times> string \<times> string" where
  "esso = (''S2'', ''Esso'', ''9 King St'', ''B'')"

definition noon :: timestamp where
  "noon = Timestamp (2025, 1, 2) 43200"

text \<open>
  An environment: one text is a timestamp in any column, the Location strings \<open>A\<close> and \<open>B\<close> are
  dictionaries of coordinates and anything else is no expression, the map refuses a NaN
  centre, and no file operation raises.
\<close>

definition example_env :: "dataframe \<Rightarrow> env" where
  "example_env df =
     \<lparr>read_excel = Inr df,
      parse_datetime = (\<lambda>col s. if s = ''2025-01-02 12:00'' then Some noon else None),
      py_eval = (\<lambda>s.
        if s = ''A'' then Inr [(''Latitude'', Some 43), (''Longitude'', Some (- 79))]
        else if s = ''B'' then Inr [(''Latitude'', Some 44), (''Longitude'', Some (- 80))]
        else Inl ''invalid syntax''),
      map_raises = (\<lambda>c. case c of (Some la, Some lo) \<Rightarrow> None
                        | _ \<Rightarrow> Some ''Location values cannot contain NaNs.''),
      remove_raises = (\<lambda>p. None),
      save_raises = (\<lambda>p. None)\<rparr>"

definition empty_state :: state where
  "empty_state = \<lparr>fs = (\<lambda>p. None), logfile = []\<rparr>"

text \<open>
  Three observations of two stations: the first has a text that is no timestamp, the
  third an empty Query Time cell, the second prices outside both ranges. \<open>located\<close>
  is that table with the coordinates of the two Location strings filled in.
\<close>

definition two_stations :: dataframe where
  "two_stations =
     [observation shell (Text ''yesterday'') ''Morning'' 120 160,
      observation esso (Stamp noon) ''Noon'' 50 300,
      observation shell NaT ''Evening'' 140 180]"

definition located :: "dataframe \<Rightarrow> dataframe" where
  "located df =
     map (\<lambda>r. if location r = ''A'' then r\<lparr>latitude := Some 43, longitude := Some (- 79)\<rparr>
              else r\<lparr>latitude := Some 44, longitude := Some (- 80)\<rparr>) df"

definition shell_key :: station_key where
  "shell_key = (''S1'', ''Shell'', 43, - 79)"

definition esso_key :: station_key where
  "esso_key = (''S2'', ''Esso'', 44, - 80)"

text \<open>An aggregated table whose regular prices are all the same.\<close>

definition uniform_regular :: "station_avg list" where
  "uniform_regular = [station_row shell_key 130 170, station_row esso_key 130 250]"

text \<open>
  The end-to-end scenario at one station on 2 January 2025, one observation whose Query
  Time is a text that parses, and an environment in which saving the time-series image
  raises.
\<close>

definition scenario_table :: dataframe where
  "scenario_table = scenario shell (2025, 1, 2) 28800 30600 64800"

definition text_row :: row where
  "text_row = observation shell (Text ''2025-01-02 12:00'') ''Morning'' 120 160"

definition disk_full_env :: env where
  "disk_full_env =
     (example_env two_stations)
       \<lparr>save_raises := (\<lambda>p. if p = ts_output_path then Some ''disk full'' else None)\<rparr>"





text \<open>A state in which each of the three output paths holds a file of an earlier run.\<close>

definition stale_state :: state where
  "stale_state =
     \<lparr>fs = (\<lambda>p. if p = ts_output_path \<or> p = hm_output_path \<or> p = it_output_path
                  then Some (Other ''stale'') else None),
      logfile = []\<rparr>"

section \<open>Properties\<close>

subsection \<open>Rows with an unparseable timestamp\<close>

lemma to_datetime_cases:
  "to_datetime e col q = NaT \<or> (\<exists>t. to_datetime e col q = Stamp t)"
  by (cases q) (auto split: option.splits)

lemma parsed_row_None: "parsed_row e col r = None \<longleftrightarrow> unparseable e col r"
  by (cases "query_time r") (simp_all add: parsed_row_def unparseable_def)

lemma time_frame_row:
  "List.map_filter
     (\<lambda>r. if to_datetime e col (query_time r) = NaT then None
          else Some (r\<lparr>query_time := to_datetime e col (query_time r),
                       date_col := dt_date (to_datetime e col (query_time r)),
                       time_tag := map_option (\<lambda>t. str_strip (str_lower t)) (time_tag r)\<rparr>)) df
   = List.map_filter (parsed_row e col) df"
proof -
  have "(if to_datetime e col (query_time r) = NaT then None
          else Some (r\<lparr>query_time := to_datetime e col (query_time r),
                       date_col := dt_date (to_datetime e col (query_time r)),
                       time_tag := map_option (\<lambda>t. str_strip (str_lower t)) (time_tag r)\<rparr>))
        = parsed_row e col r" for r
    by (cases "query_time r") (auto simp: parsed_row_def derived_row_def split: option.splits)
  then show ?thesis by simp
qed

lemma time_frame_map_filter:
  "normalize_time_tag (add_date (dropna_query_time (map (\<lambda>r. r\<lparr>query_time := f r\<rparr>) df))) =
   List.map_filter
     (\<lambda>r. if f r = NaT then None
          else Some (r\<lparr>query_time := f r, date_col := dt_date (f r),
                       time_tag := map_option (\<lambda>t. str_strip (str_lower t)) (time_tag r)\<rparr>)) df"
  by (induction df)
    (simp_all add: normalize_time_tag_def add_date_def dropna_query_time_def
      List.map_filter_simps)

lemma time_frame_parsed_rows: "time_frame (coerce_query_time e df) = parsed_rows e df"
  unfolding time_frame_def coerce_query_time_def Let_def parsed_rows_def
  by (simp only: time_frame_map_filter time_frame_row)

lemma parsed_rows_stamps: "list_all (\<lambda>r. \<exists>t. query_time r = Stamp t) (parsed_rows e df)"
proof -
  have "parsed_row e col r = Some r' \<Longrightarrow> \<exists>t. query_time r' = Stamp t" for col r r'
    by (cases "query_time r") (auto simp: parsed_row_def derived_row_def)
  then show ?thesis
    by (auto simp: parsed_rows_def list_all_iff List.map_filter_def)
qed

lemma length_parsed_rows:
  "length (parsed_rows e df) = length (filter (\<lambda>r. \<not> unparseable e (map query_time df) r) df)"
proof -
  have "length (List.map_filter (parsed_row e col) xs) =
        length (filter (\<lambda>r. \<not> unparseable e col r) xs)" for col xs
    by (induction xs)
      (auto simp: List.map_filter_simps parsed_row_None [symmetric] split: option.splits)
  then show ?thesis by (simp add: parsed_rows_def)
qed

text \<open>
  C3. The table under the pivots of plotTimeGraph and under the traces of plotInteractive
  consists of the rows of the input whose Query Time parses, each with its parsed
  timestamp, date and normalized tag: a row whose Query Time is empty, or a text in which
  \<open>pd.to_datetime\<close> reads no timestamp within the column, yields no row of it. Every
  row of that table carries a timestamp, and the image and the graph the two renderers
  save are drawn from that table.
\<close>

theorem unparseable_rows_excluded:
  "time_frame (coerce_query_time e df) = parsed_rows e df
   \<and> (parsed_row e (map query_time df) r = None) = unparseable e (map query_time df) r
   \<and> length (parsed_rows e df) =
       length (filter (\<lambda>r. \<not> unparseable e (map query_time df) r) df)
   \<and> list_all (\<lambda>r. \<exists>t. query_time r = Stamp t) (parsed_rows e df)
   \<and> plotTimeGraph e df s =
       (if text_column (map time_tag df) then
          Inr (coerce_query_time e df,
               delete_then_save e ts_output_path (PNG (time_figure (parsed_rows e df)) 300)
                 ts_saved s)
        else Inl str_accessor_error)
   \<and> plotInteractive e df s =
       (if text_column (map time_tag df) then
          Inr (df,
               delete_then_save e it_output_path
                 (PlotHTML (interactive_figure (parsed_rows e df))) it_saved s)
        else Inl str_accessor_error)"
  by (simp add: time_frame_parsed_rows parsed_row_None length_parsed_rows parsed_rows_stamps
      plotTimeGraph_def plotInteractive_def Let_def)

lemma parsed_rows_two_stations:
  "parsed_rows (example_env x) two_stations =
     [derived_row noon (observation esso (Stamp noon) ''Noon'' 50 300)]"
  by (simp add: parsed_rows_def parsed_row_def two_stations_def observation_def shell_def
      esso_def example_env_def List.map_filter_simps)

text \<open>
  An instance: of the three rows of the example table only the one with a timestamp is
  under the pivots and traces.
\<close>

theorem unparseable_rows_excluded_witness:
  "unparseable (example_env []) (map query_time two_stations)
     (observation shell (Text ''yesterday'') ''Morning'' 120 160)
   \<and> unparseable (example_env []) (map query_time two_stations)
       (observation shell NaT ''Evening'' 140 180)
   \<and> time_frame (coerce_query_time (example_env []) two_stations) =
       [derived_row noon (observation esso (Stamp noon) ''Noon'' 50 300)]"
proof -
  have "unparseable (example_env []) (map query_time two_stations)
     (observation shell (Text ''yesterday'') ''Morning'' 120 160)"
    "unparseable (example_env []) (map query_time two_stations)
       (observation shell NaT ''Evening'' 140 180)"
    by (simp_all add: unparseable_def observation_def shell_def example_env_def)
  moreover have "time_frame (coerce_query_time (example_env []) two_stations) =
       [derived_row noon (observation esso (Stamp noon) ''Noon'' 50 300)]"
    using unparseable_rows_excluded [of "example_env []" two_stations]
    by (simp add: parsed_rows_two_stations)
  ultimately show ?thesis by simp
qed

subsection \<open>The heat map\<close>

lemma clip_nearest_bound: "lo \<le> hi \<Longrightarrow> clip lo hi x = nearest_bound lo hi x"
  by (auto simp: clip_def nearest_bound_def min_def max_def)

lemma station_key_of_heat_row [simp]:
  "station_key_of (r\<lparr>regular_price := a, premium_price := b\<rparr>) = station_key_of r"
  "station_key_of (r\<lparr>regular_price := a\<rparr>) = station_key_of r"
  "station_key_of (r\<lparr>premium_price := b\<rparr>) = station_key_of r"
  by (simp_all add: station_key_of_def split: option.splits)

lemma heat_frame_Nil [simp]: "heat_frame [] = []"
  by (simp add: heat_frame_def dropna_prices_def clip_regular_def clip_premium_def)

lemma heat_frame_Cons:
  "heat_frame (r # df) =
     (case (regular_price r, premium_price r) of
        (Some x, Some y) \<Rightarrow>
          r\<lparr>regular_price := Some (clip 100 200 x), premium_price := Some (clip 150 250 y)\<rparr>
            # heat_frame df
      | _ \<Rightarrow> heat_frame df)"
  by (auto simp: heat_frame_def dropna_prices_def clip_regular_def clip_premium_def
      split: option.splits)

lemma station_group_heat_frame:
  "station_group (List.map_filter station_entry (heat_frame df)) k =
   map (\<lambda>p. (clip 100 200 (fst p), clip 150 250 (snd p))) (surviving_prices df k)"
  by (induction df)
    (auto simp: heat_frame_Cons station_group_def surviving_prices_def station_entry_def
      List.map_filter_simps split: option.splits)

lemma station_keys_heat_frame:
  "k \<in> fst ` set (List.map_filter station_entry (heat_frame df)) \<longleftrightarrow> surviving_prices df k \<noteq> []"
proof -
  have "k \<in> fst ` set es \<longleftrightarrow> station_group es k \<noteq> []" for es :: "(station_key \<times> rat \<times> rat) list"
    by (induction es) (auto simp: station_group_def)
  then show ?thesis by (simp add: station_group_heat_frame)
qed

lemma groupby_station_iff:
  "a \<in> set (groupby_station (heat_frame df)) \<longleftrightarrow>
   (\<exists>k. surviving_prices df k \<noteq> [] \<and>
        a = station_row k (mean (map (\<lambda>p. nearest_bound 100 200 (fst p)) (surviving_prices df k)))
              (mean (map (\<lambda>p. nearest_bound 150 250 (snd p)) (surviving_prices df k))))"
proof -
  have "a \<in> set (groupby_station (heat_frame df)) \<longleftrightarrow>
      (\<exists>k \<in> fst ` set (List.map_filter station_entry (heat_frame df)).
         a = station_row k
               (mean (map fst (station_group (List.map_filter station_entry (heat_frame df)) k)))
               (mean (map snd (station_group (List.map_filter station_entry (heat_frame df)) k))))"
    unfolding groupby_station_def Let_def set_map set_sort set_remdups by blast
  then show ?thesis
    by (simp add: station_group_heat_frame station_keys_heat_frame Bex_def comp_def
        clip_nearest_bound cong: conj_cong)
qed

lemma length_heat_frame: "length (heat_frame df) = length (dropna_prices df)"
  by (simp add: heat_frame_def clip_regular_def clip_premium_def)

lemma heat_map_eq:
  "heat_map e avg s =
     (case map_raises e (map_center avg) of
        Some msg \<Rightarrow> Inl (ValueError msg)
      | None \<Rightarrow>
          Inr (\<lparr>fm_location = map_center avg, fm_zoom_start = 12,
                fm_children = (if regular_valid avg then regular_layer avg else [])
                  @ (if premium_valid avg then premium_layer avg else []) @ [LayerControl]\<rparr>,
               s\<lparr>logfile := logfile s @ (if regular_valid avg then [] else [regular_warning avg])
                  @ (if premium_valid avg then [] else [premium_warning avg])\<rparr>))"
  by (simp add: heat_map_def Let_def regular_valid_def premium_valid_def regular_layer_def
      premium_layer_def regular_scale_def premium_scale_def regular_warning_def
      premium_warning_def map_center_def add_log_def split: option.splits)

lemma fold_min_Min: "fold min ys (x::rat) = Min (set (x # ys))"
  by (rule Min.set_eq_fold [symmetric])

lemma fold_max_Max: "fold max ys (x::rat) = Max (set (x # ys))"
  by (rule Max.set_eq_fold [symmetric])

lemma lt_float_min_max:
  "lt_float (series_min xs) (series_max xs) \<longleftrightarrow> (\<exists>x \<in> set xs. \<exists>y \<in> set xs. x \<noteq> y)"
proof (cases xs)
  case Nil
  then show ?thesis by (simp add: series_min_def series_max_def)
next
  case (Cons z zs)
  have fin: "finite (set xs)" "set xs \<noteq> {}" using Cons by auto
  have "Min (set xs) < Max (set xs) \<longleftrightarrow> (\<exists>x \<in> set xs. \<exists>y \<in> set xs. x \<noteq> y)"
  proof
    assume "Min (set xs) < Max (set xs)"
    moreover have "Min (set xs) \<in> set xs" "Max (set xs) \<in> set xs"
      using fin by (auto intro: Min_in Max_in)
    ultimately show "\<exists>x \<in> set xs. \<exists>y \<in> set xs. x \<noteq> y" by (metis less_irrefl)
  next
    assume "\<exists>x \<in> set xs. \<exists>y \<in> set xs. x \<noteq> y"
    then obtain x y where xy: "x \<in> set xs" "y \<in> set xs" "x < y"
      by (metis linorder_neqE)
    have "Min (set xs) \<le> x" "y \<le> Max (set xs)" using xy fin by auto
    then show "Min (set xs) < Max (set xs)" using xy by linarith
  qed
  then show ?thesis
    using Cons by (simp add: series_min_def series_max_def fold_min_Min fold_max_Max)
qed

lemma apply_location_Inr:
  "apply_location e k df = Inr vs \<Longrightarrow>
   list_all2 (\<lambda>r v. \<exists>d. py_eval e (location r) = Inr d \<and> map_of d k = Some v) df vs"
  by (induction df arbitrary: vs) (auto split: sum.splits option.splits)

lemma apply_location_set_latitude:
  "length vs = length df \<Longrightarrow> apply_location e k (set_latitude df vs) = apply_location e k df"
proof (induction df arbitrary: vs)
  case Nil
  then show ?case by (simp add: set_latitude_def)
next
  case (Cons r df)
  then obtain v ws where vs: "vs = v # ws" "length ws = length df" by (cases vs) auto
  have "set_latitude (r # df) (v # ws) = r\<lparr>latitude := v\<rparr> # set_latitude df ws"
    by (simp add: set_latitude_def)
  with Cons.IH [OF vs(2)] vs show ?case by (simp split: sum.splits option.splits)
qed

lemma add_coordinates_Inr:
  assumes "add_coordinates e df = Inr df'"
  shows "list_all2 (\<lambda>r r'. \<exists>d la lo. py_eval e (location r) = Inr d
            \<and> map_of d ''Latitude'' = Some la \<and> map_of d ''Longitude'' = Some lo
            \<and> r' = r\<lparr>latitude := la, longitude := lo\<rparr>) df df'"
proof -
  from assms obtain lats lons where
    lats: "apply_location e ''Latitude'' df = Inr lats" and
    lons: "apply_location e ''Longitude'' (set_latitude df lats) = Inr lons" and
    df': "df' = set_longitude (set_latitude df lats) lons"
    by (auto simp: add_coordinates_def Let_def split: sum.splits)
  have l1: "list_all2 (\<lambda>r v. \<exists>d. py_eval e (location r) = Inr d \<and> map_of d ''Latitude'' = Some v) df lats"
    by (rule apply_location_Inr [OF lats])
  then have len1: "length lats = length df" by (simp add: list_all2_lengthD)
  have "apply_location e ''Longitude'' df = Inr lons"
    using lons apply_location_set_latitude [OF len1] by simp
  then have l2: "list_all2 (\<lambda>r v. \<exists>d. py_eval e (location r) = Inr d \<and> map_of d ''Longitude'' = Some v) df lons"
    by (rule apply_location_Inr)
  then have len2: "length lons = length df" by (simp add: list_all2_lengthD)
  show ?thesis
    unfolding list_all2_conv_all_nth
  proof (intro conjI allI impI)
    show "length df = length df'"
      by (simp add: df' set_longitude_def set_latitude_def len1 len2)
  next
    fix i assume i: "i < length df"
    have a: "\<exists>d. py_eval e (location (df ! i)) = Inr d \<and> map_of d ''Latitude'' = Some (lats ! i)"
      using l1 i by (simp add: list_all2_conv_all_nth)
    have b: "\<exists>d. py_eval e (location (df ! i)) = Inr d \<and> map_of d ''Longitude'' = Some (lons ! i)"
      using l2 i by (simp add: list_all2_conv_all_nth)
    have c: "df' ! i = (df ! i)\<lparr>latitude := lats ! i, longitude := lons ! i\<rparr>"
      using i by (simp add: df' set_longitude_def set_latitude_def len1 len2)
    from a b c show "\<exists>d la lo. py_eval e (location (df ! i)) = Inr d
            \<and> map_of d ''Latitude'' = Some la \<and> map_of d ''Longitude'' = Some lo
            \<and> df' ! i = (df ! i)\<lparr>latitude := la, longitude := lo\<rparr>"
      by auto
  qed
qed

lemma apply_location_not_NameError: "apply_location e k df \<noteq> Inl (NameError n)"
  by (induction df) (auto split: sum.splits option.splits)

lemma add_coordinates_not_NameError: "add_coordinates e df \<noteq> Inl (NameError n)"
  using apply_location_not_NameError
  by (auto simp: add_coordinates_def Let_def split: sum.splits)

lemma heat_map_not_NameError: "heat_map e avg s \<noteq> Inl (NameError n)"
  by (simp add: heat_map_eq split: option.splits)

text \<open>
  C10. Neither the map construction nor plotHeatMap as a whole ever raises NameError: the
  colour scales are read only where they were assigned. On an empty aggregated table both
  tests fail, both warnings are logged with NaN bounds, and the map (if its NaN centre is
  accepted) holds the layer control alone.
\<close>

theorem color_scale_never_unbound:
  "heat_map e avg_prices s \<noteq> Inl (NameError n)
   \<and> plotHeatMap e df s \<noteq> Inl (NameError n)
   \<and> heat_map e [] s =
       (case map_raises e (None, None) of
          Some msg \<Rightarrow> Inl (ValueError msg)
        | None \<Rightarrow>
            Inr (\<lparr>fm_location = (None, None), fm_zoom_start = 12, fm_children = [LayerControl]\<rparr>,
                 s\<lparr>logfile := logfile s @ [InvalidThresholds ''regular'' None None,
                                   InvalidThresholds ''premium'' None None]\<rparr>))"
proof (intro conjI)
  show "heat_map e avg_prices s \<noteq> Inl (NameError n)" by (rule heat_map_not_NameError)
  show "plotHeatMap e df s \<noteq> Inl (NameError n)"
    using add_coordinates_not_NameError [of e df n] heat_map_not_NameError
    by (auto simp: plotHeatMap_def Let_def split: sum.splits prod.splits)
  show "heat_map e [] s =
       (case map_raises e (None, None) of
          Some msg \<Rightarrow> Inl (ValueError msg)
        | None \<Rightarrow>
            Inr (\<lparr>fm_location = (None, None), fm_zoom_start = 12, fm_children = [LayerControl]\<rparr>,
                 s\<lparr>logfile := logfile s @ [InvalidThresholds ''regular'' None None,
                                   InvalidThresholds ''premium'' None None]\<rparr>))"
    by (simp add: heat_map_eq map_center_def series_mean_def regular_valid_def premium_valid_def
        series_min_def series_max_def regular_warning_def premium_warning_def
        split: option.splits)
qed

text \<open>
  C5. When the map is built and the test \<open>min < max\<close> fails for the aggregated regular
  prices, the map holds no regular layer and no regular legend (its children are the
  premium layer with its legend, if the premium range passes the test, and the layer
  control) and the warning is logged; symmetrically for premium. The test fails exactly
  when all aggregated prices of that kind are the same.
\<close>

theorem degenerate_range_omits_layer:
  assumes "heat_map e avg_prices s = Inr (m, s')"
  shows "(\<not> regular_valid avg_prices \<longrightarrow>
            fm_children m = (if premium_valid avg_prices then premium_layer avg_prices else [])
              @ [LayerControl]
            \<and> regular_warning avg_prices \<in> set (logfile s'))
       \<and> (\<not> premium_valid avg_prices \<longrightarrow>
            fm_children m = (if regular_valid avg_prices then regular_layer avg_prices else [])
              @ [LayerControl]
            \<and> premium_warning avg_prices \<in> set (logfile s'))
       \<and> (regular_valid avg_prices \<longleftrightarrow>
            (\<exists>a \<in> set avg_prices. \<exists>b \<in> set avg_prices. sa_regular a \<noteq> sa_regular b))
       \<and> (premium_valid avg_prices \<longleftrightarrow>
            (\<exists>a \<in> set avg_prices. \<exists>b \<in> set avg_prices. sa_premium a \<noteq> sa_premium b))"
proof -
  have m: "fm_children m = (if regular_valid avg_prices then regular_layer avg_prices else [])
                  @ (if premium_valid avg_prices then premium_layer avg_prices else [])
                  @ [LayerControl]"
    and l: "logfile s' = logfile s @ (if regular_valid avg_prices then [] else [regular_warning avg_prices])
                  @ (if premium_valid avg_prices then [] else [premium_warning avg_prices])"
    using assms by (auto simp: heat_map_eq split: option.splits)
  have r: "regular_valid avg_prices \<longleftrightarrow>
            (\<exists>a \<in> set avg_prices. \<exists>b \<in> set avg_prices. sa_regular a \<noteq> sa_regular b)"
    by (simp add: regular_valid_def lt_float_min_max)
  have p: "premium_valid avg_prices \<longleftrightarrow>
            (\<exists>a \<in> set avg_prices. \<exists>b \<in> set avg_prices. sa_premium a \<noteq> sa_premium b)"
    by (simp add: premium_valid_def lt_float_min_max)
  have a: "\<not> regular_valid avg_prices \<longrightarrow>
            fm_children m = (if premium_valid avg_prices then premium_layer avg_prices else [])
              @ [LayerControl]
            \<and> regular_warning avg_prices \<in> set (logfile s')"
    by (simp add: m l)
  have b: "\<not> premium_valid avg_prices \<longrightarrow>
            fm_children m = (if regular_valid avg_prices then regular_layer avg_prices else [])
              @ [LayerControl]
            \<and> premium_warning avg_prices \<in> set (logfile s')"
    by (simp add: m l)
  from a b r p show ?thesis by blast
qed

lemma clip_bounds:
  "clip 100 200 = nearest_bound 100 200" "clip 150 250 = nearest_bound 150 250"
  by (rule ext, simp add: clip_nearest_bound)+

lemma heat_frame_eq:
  "heat_frame df =
     map (\<lambda>r. r\<lparr>regular_price := map_option (nearest_bound 100 200) (regular_price r),
                premium_price := map_option (nearest_bound 150 250) (premium_price r)\<rparr>)
       (dropna_prices df)"
  by (simp add: heat_frame_def clip_regular_def clip_premium_def clip_bounds comp_def)

text \<open>
  C4. The table plotHeatMap aggregates is the table after the missing-price drop, row for
  row, with each regular price pulled to the nearest bound of [100, 200] and each premium
  price to the nearest bound of [150, 250]; and the aggregated table has exactly one row
  for each station with a surviving row, holding the means of these pulled prices over
  all the surviving rows of the station.
\<close>

theorem heat_map_prices_clipped:
  "heat_frame df =
     map (\<lambda>r. r\<lparr>regular_price := map_option (nearest_bound 100 200) (regular_price r),
                premium_price := map_option (nearest_bound 150 250) (premium_price r)\<rparr>)
       (dropna_prices df)
   \<and> (a \<in> set (groupby_station (heat_frame df)) \<longleftrightarrow>
       (\<exists>k. surviving_prices df k \<noteq> [] \<and>
          a = station_row k
                (mean (map (\<lambda>p. nearest_bound 100 200 (fst p)) (surviving_prices df k)))
                (mean (map (\<lambda>p. nearest_bound 150 250 (snd p)) (surviving_prices df k)))))"
  using heat_frame_eq groupby_station_iff by blast


lemma surviving_two_stations:
  "surviving_prices (located two_stations) shell_key = [(120, 160), (140, 180)]"
  "surviving_prices (located two_stations) esso_key = [(50, 300)]"
  by (simp_all add: surviving_prices_def located_def two_stations_def observation_def shell_def
      esso_def shell_key_def esso_key_def station_key_of_def List.map_filter_simps)

lemma entries_two_stations:
  "List.map_filter station_entry (heat_frame (located two_stations)) =
     [(shell_key, 120, 160), (esso_key, 100, 250), (shell_key, 140, 180)]"
  by (simp add: heat_frame_def dropna_prices_def clip_regular_def clip_premium_def clip_def
      located_def two_stations_def observation_def shell_def
      esso_def shell_key_def esso_key_def station_key_of_def station_entry_def List.map_filter_simps)

lemma key_order: "sort (remdups [shell_key, esso_key, shell_key]) = [shell_key, esso_key]"
  by (simp add: shell_key_def esso_key_def)

lemma groupby_two_stations:
  "groupby_station (heat_frame (located two_stations)) =
     [station_row shell_key 130 170, station_row esso_key 100 250]"
  by (simp add: groupby_station_def entries_two_stations key_order station_group_def mean_def
      shell_key_def esso_key_def)


lemma station_row_sel [simp]:
  "sa_regular (station_row k x y) = x" "sa_premium (station_row k x y) = y"
  "sa_station_id (station_row k x y) = fst k"
  "sa_station_name (station_row k x y) = fst (snd k)"
  "sa_latitude (station_row k x y) = fst (snd (snd k))"
  "sa_longitude (station_row k x y) = snd (snd (snd k))"
  by (cases k; simp add: station_row_def)+






lemma station_entry_blank [simp]: "station_entry (r\<lparr>query_time := q\<rparr>) = station_entry r"
  by (simp add: station_entry_def station_key_of_def split: option.splits)







text \<open>An instance: the station whose only row has prices 50 and 300 is averaged at 100 and 250.\<close>

theorem heat_map_prices_clipped_witness:
  "station_row esso_key 100 250 \<in> set (groupby_station (heat_frame (located two_stations)))"
proof -
  have "surviving_prices (located two_stations) esso_key \<noteq> [] \<and>
        station_row esso_key 100 250 =
          station_row esso_key
            (mean (map (\<lambda>p. nearest_bound 100 200 (fst p))
               (surviving_prices (located two_stations) esso_key)))
            (mean (map (\<lambda>p. nearest_bound 150 250 (snd p))
               (surviving_prices (located two_stations) esso_key)))"
    by (simp add: surviving_two_stations nearest_bound_def mean_def)
  then show ?thesis
    using heat_map_prices_clipped [of "located two_stations" "station_row esso_key 100 250"] by blast
qed

lemma uniform_regular_valid:
  "\<not> regular_valid uniform_regular" "premium_valid uniform_regular"
  by (simp_all add: regular_valid_def premium_valid_def uniform_regular_def series_min_def
      series_max_def)

lemma uniform_regular_center:
  "map_raises (example_env x) (map_center uniform_regular) = None"
  by (simp add: map_center_def series_mean_def uniform_regular_def example_env_def
      shell_key_def esso_key_def)

text \<open>An instance: two stations with the same regular mean and different premium means.\<close>

theorem degenerate_range_omits_layer_witness:
  "\<exists>m s'. heat_map (example_env []) uniform_regular empty_state = Inr (m, s')
     \<and> \<not> regular_valid uniform_regular \<and> premium_valid uniform_regular
     \<and> fm_children m = premium_layer uniform_regular @ [LayerControl]
     \<and> regular_warning uniform_regular \<in> set (logfile s')"
proof -
  obtain m s' where h: "heat_map (example_env []) uniform_regular empty_state = Inr (m, s')"
    by (simp add: heat_map_eq uniform_regular_center)
  from degenerate_range_omits_layer [OF h] uniform_regular_valid
  have "fm_children m = premium_layer uniform_regular @ [LayerControl]
        \<and> regular_warning uniform_regular \<in> set (logfile s')"
    by simp
  with h uniform_regular_valid show ?thesis by blast
qed




subsection \<open>The save step and the whole run\<close>

lemma fs_add_log [simp]: "fs (add_log m s) = fs s"
  by (simp add: add_log_def)

lemma logfile_add_log [simp]: "logfile (add_log m s) = logfile s @ [m]"
  by (simp add: add_log_def)

lemma fs_delete_then_save:
  "fs (delete_then_save e p art ok s) = (fs s)(p := file_after e p art (fs s p))"
proof (cases "fs s p")
  case None
  then have "(fs s)(p := None) = fs s" by (simp add: fun_upd_idem_iff)
  with None show ?thesis
    by (cases "save_raises e p") (simp_all add: delete_then_save_def file_after_def)
next
  case (Some old)
  show ?thesis
  proof (cases "remove_raises e p")
    case None
    with Some show ?thesis
      by (cases "save_raises e p") (simp_all add: delete_then_save_def file_after_def Let_def)
  next
    case (Some msg)
    have "(fs s)(p := fs s p) = fs s" by (simp add: fun_upd_idem_iff)
    with Some \<open>fs s p = Some old\<close> show ?thesis
      by (simp add: delete_then_save_def file_after_def Let_def)
  qed
qed

lemma delete_then_save_raises:
  assumes "step_raises e s p = Some msg"
  shows "last (logfile (delete_then_save e p art ok s)) = Debug (''An error occurred: '' @ msg)
         \<and> (fs (delete_then_save e p art ok s) = fs s
            \<or> fs (delete_then_save e p art ok s) = (fs s)(p := None))"
proof (cases "fs s p")
  case None
  with assms have "save_raises e p = Some msg" by (simp add: step_raises_def)
  with None show ?thesis by (simp add: delete_then_save_def)
next
  case (Some old)
  show ?thesis
  proof (cases "remove_raises e p")
    case None
    with Some assms have "save_raises e p = Some msg" by (simp add: step_raises_def)
    with None Some show ?thesis by (simp add: delete_then_save_def Let_def)
  next
    case (Some m)
    with \<open>fs s p = Some old\<close> assms have "m = msg" by (simp add: step_raises_def)
    with Some \<open>fs s p = Some old\<close> show ?thesis by (simp add: delete_then_save_def Let_def)
  qed
qed

lemma file_after_no_raise:
  "step_raises e s p = None \<Longrightarrow> file_after e p art (fs s p) = Some art"
  by (cases "fs s p"; cases "remove_raises e p"; simp add: step_raises_def file_after_def)

lemma file_after_idem:
  "file_after e p art (file_after e p art old) = file_after e p art old"
  by (simp add: file_after_def)

lemma output_paths_distinct:
  "ts_output_path \<noteq> hm_output_path" "ts_output_path \<noteq> it_output_path"
  "hm_output_path \<noteq> it_output_path" "hm_output_path \<noteq> ts_output_path"
  "it_output_path \<noteq> ts_output_path" "it_output_path \<noteq> hm_output_path"
  by (simp_all add: ts_output_path_def hm_output_path_def it_output_path_def)

lemma heat_map_built:
  "heat_map e avg s =
     (case map_raises e (map_center avg) of
        Some msg \<Rightarrow> Inl (ValueError msg)
      | None \<Rightarrow> Inr (built_map avg, s\<lparr>logfile := logfile s @ threshold_warnings avg\<rparr>))"
  by (simp add: heat_map_eq built_map_def threshold_warnings_def split: option.splits)

lemma to_datetime_same:
  assumes "parse_datetime e' = parse_datetime e"
  shows "to_datetime e' col q = to_datetime e col q"
  using assms by (cases q) simp_all

lemma coerce_same:
  assumes "parse_datetime e' = parse_datetime e"
  shows "coerce_query_time e' df = coerce_query_time e df"
  unfolding coerce_query_time_def using to_datetime_same [OF assms] by simp

lemma apply_location_same:
  assumes "py_eval e' = py_eval e"
  shows "apply_location e' k df = apply_location e k df"
  by (induction df) (simp_all add: assms split: sum.splits option.splits)

lemma add_coordinates_same:
  assumes "py_eval e' = py_eval e"
  shows "add_coordinates e' df = add_coordinates e df"
  by (simp only: add_coordinates_def apply_location_same [OF assms])

lemma plotHeatMap_eq:
  "plotHeatMap e df s =
     (case add_coordinates e df of
        Inl x \<Rightarrow> Inl x
      | Inr dfc \<Rightarrow>
          (case map_raises e (map_center (groupby_station (heat_frame dfc))) of
             Some msg \<Rightarrow> Inl (ValueError msg)
           | None \<Rightarrow>
               Inr (dfc, delete_then_save e hm_output_path
                           (MapHTML (built_map (groupby_station (heat_frame dfc)))) hm_saved
                           (s\<lparr>logfile := logfile s
                               @ threshold_warnings (groupby_station (heat_frame dfc))\<rparr>))))"
  by (simp add: plotHeatMap_def heat_map_built Let_def split: sum.splits option.splits)

lemma time_tag_coerce [simp]: "map time_tag (coerce_query_time e df) = map time_tag df"
  by (simp add: coerce_query_time_def Let_def comp_def)

lemma time_tag_add_coordinates:
  assumes "add_coordinates e df = Inr df'"
  shows "map time_tag df' = map time_tag df"
proof -
  have "list_all2 (\<lambda>r r'. time_tag r' = time_tag r) df df'"
    using add_coordinates_Inr [OF assms] by (rule list_all2_mono) auto
  then show ?thesis
    by (simp add: list_all2_conv_all_nth list_eq_iff_nth_eq)
qed

lemma renderings_same:
  assumes "same_data e e'"
  shows "renderings e' = renderings e"
proof -
  have p: "parse_datetime e' = parse_datetime e" and q: "py_eval e' = py_eval e"
    and r: "read_excel e' = read_excel e" and m: "map_raises e' = map_raises e"
    using assms by (simp_all add: same_data_def)
  show ?thesis
    by (simp only: renderings_def coerce_same [OF p] add_coordinates_same [OF q] r m)
qed

lemma same_data_no_io_errors: "same_data e (no_io_errors e)"
  by (simp add: same_data_def no_io_errors_def)

lemma main_raises:
  assumes "renderings e = Inl x"
  shows "main e s = Inl x"
proof (cases "read_excel e")
  case (Inl msg)
  with assms show ?thesis by (simp add: renderings_def main_def)
next
  case (Inr df)
  show ?thesis
  proof (cases "text_column (map time_tag df)")
    case False
    with assms Inr show ?thesis by (simp add: renderings_def main_def plotTimeGraph_def)
  next
    case True
    show ?thesis
    proof (cases "add_coordinates e (coerce_query_time e df)")
      case (Inl y)
      with assms Inr True show ?thesis
        by (simp add: renderings_def main_def plotTimeGraph_def plotHeatMap_eq Let_def)
    next
      case co: (Inr d)
      show ?thesis
      proof (cases "map_raises e (map_center (groupby_station (heat_frame d)))")
        case None
        with assms Inr True co show ?thesis by (simp add: renderings_def Let_def)
      next
        case (Some msg)
        with assms Inr True co show ?thesis
          by (simp add: renderings_def main_def plotTimeGraph_def plotHeatMap_eq Let_def)
      qed
    qed
  qed
qed

lemma main_returns:
  assumes "renderings e = Inr (d, a1, a2, a3)"
  shows "\<exists>s'. main e s = Inr (d, s') \<and>
           fs s' = (fs s)
             (ts_output_path := file_after e ts_output_path a1 (fs s ts_output_path),
              hm_output_path := file_after e hm_output_path a2 (fs s hm_output_path),
              it_output_path := file_after e it_output_path a3 (fs s it_output_path))"
proof -
  from assms obtain df where df: "read_excel e = Inr df"
    by (auto simp: renderings_def split: sum.splits)
  from assms df have tc: "text_column (map time_tag df)"
    by (auto simp: renderings_def split: if_splits)
  from assms df tc have co: "add_coordinates e (coerce_query_time e df) = Inr d"
    by (auto simp: renderings_def Let_def split: sum.splits option.splits)
  from assms df tc co have mr: "map_raises e (map_center (groupby_station (heat_frame d))) = None"
    by (auto simp: renderings_def Let_def split: option.splits)
  from assms df tc co mr have a:
    "a1 = PNG (time_figure (time_frame (coerce_query_time e df))) 300"
    "a2 = MapHTML (built_map (groupby_station (heat_frame d)))"
    "a3 = PlotHTML (interactive_figure (time_frame (coerce_query_time e d)))"
    by (simp_all add: renderings_def Let_def)
  have tc': "text_column (map time_tag d)"
    using tc time_tag_add_coordinates [OF co] by simp
  show ?thesis
    by (simp add: main_def plotTimeGraph_def plotHeatMap_eq plotInteractive_def Let_def
        df tc tc' co mr a fs_delete_then_save output_paths_distinct)
qed

lemma main_cases:
  obtains (raises) x where "renderings e = Inl x" "\<And>s. main e s = Inl x"
  | (returns) d a1 a2 a3 where "renderings e = Inr (d, a1, a2, a3)"
      "\<And>s. \<exists>s'. main e s = Inr (d, s') \<and>
           fs s' = (fs s)
             (ts_output_path := file_after e ts_output_path a1 (fs s ts_output_path),
              hm_output_path := file_after e hm_output_path a2 (fs s hm_output_path),
              it_output_path := file_after e it_output_path a3 (fs s it_output_path))"
proof (cases "renderings e")
  case (Inl x)
  then show ?thesis using main_raises raises by blast
next
  case (Inr t)
  then obtain d a1 a2 a3 where "renderings e = Inr (d, a1, a2, a3)" by (cases t) auto
  then show ?thesis using main_returns returns by blast
qed

lemma renderings_artifacts:
  assumes "renderings e = Inr (d, a1, a2, a3)"
  shows "\<exists>df. read_excel e = Inr df \<and> text_column (map time_tag df)
           \<and> add_coordinates e (coerce_query_time e df) = Inr d
           \<and> a1 = PNG (time_figure (time_frame (coerce_query_time e df))) 300
           \<and> a2 = MapHTML (built_map (groupby_station (heat_frame d)))
           \<and> a3 = PlotHTML (interactive_figure (time_frame (coerce_query_time e d)))"
proof -
  from assms obtain df where df: "read_excel e = Inr df"
    by (auto simp: renderings_def split: sum.splits)
  from assms df have tc: "text_column (map time_tag df)"
    by (auto simp: renderings_def split: if_splits)
  from assms df tc have co: "add_coordinates e (coerce_query_time e df) = Inr d"
    by (auto simp: renderings_def Let_def split: sum.splits option.splits)
  from assms df tc co have mr: "map_raises e (map_center (groupby_station (heat_frame d))) = None"
    by (auto simp: renderings_def Let_def split: option.splits)
  from assms df tc co mr have
    "a1 = PNG (time_figure (time_frame (coerce_query_time e df))) 300"
    "a2 = MapHTML (built_map (groupby_station (heat_frame d)))"
    "a3 = PlotHTML (interactive_figure (time_frame (coerce_query_time e d)))"
    by (simp_all add: renderings_def Let_def)
  with df tc co show ?thesis by blast
qed

text \<open>
  C8. A run that ends normally has drawn three artifacts from the spreadsheet, and at each
  output path it leaves what \<open>file_after\<close> says: the artifact it has just drawn,
  whatever was at the path before, when the renderer's save step meets no exception;
  nothing when the old file is removed and the save then raises; the old file only when
  its removal raises. Run again on the same spreadsheet from the state it left (the same
  parser, \<open>eval\<close>, map check and file-operation behaviour), it ends normally again
  with the same table and leaves exactly the same files.
\<close>

theorem rerun_same_outputs:
  assumes "main e s = Inr (d1, s1)"
  shows "\<exists>df a1 a2 a3 s2.
           read_excel e = Inr df
           \<and> a1 = PNG (time_figure (time_frame (coerce_query_time e df))) 300
           \<and> a2 = MapHTML (built_map (groupby_station (heat_frame d1)))
           \<and> a3 = PlotHTML (interactive_figure (time_frame (coerce_query_time e d1)))
           \<and> fs s1 = (fs s)
               (ts_output_path := file_after e ts_output_path a1 (fs s ts_output_path),
                hm_output_path := file_after e hm_output_path a2 (fs s hm_output_path),
                it_output_path := file_after e it_output_path a3 (fs s it_output_path))
           \<and> (step_raises e s ts_output_path = None \<longrightarrow> fs s1 ts_output_path = Some a1)
           \<and> (step_raises e s hm_output_path = None \<longrightarrow> fs s1 hm_output_path = Some a2)
           \<and> (step_raises e s it_output_path = None \<longrightarrow> fs s1 it_output_path = Some a3)
           \<and> main e s1 = Inr (d1, s2) \<and> fs s2 = fs s1"
proof (cases e rule: main_cases)
  case (raises x)
  with assms show ?thesis by simp
next
  case (returns d a1 a2 a3)
  from returns(2) [of s] assms have d: "d = d1"
    and f1: "fs s1 = (fs s)
             (ts_output_path := file_after e ts_output_path a1 (fs s ts_output_path),
              hm_output_path := file_after e hm_output_path a2 (fs s hm_output_path),
              it_output_path := file_after e it_output_path a3 (fs s it_output_path))"
    by auto
  from returns(2) [of s1] obtain s2 where m2: "main e s1 = Inr (d, s2)"
    and f2: "fs s2 = (fs s1)
             (ts_output_path := file_after e ts_output_path a1 (fs s1 ts_output_path),
              hm_output_path := file_after e hm_output_path a2 (fs s1 hm_output_path),
              it_output_path := file_after e it_output_path a3 (fs s1 it_output_path))"
    by blast
  have t: "fs s1 ts_output_path = file_after e ts_output_path a1 (fs s ts_output_path)"
    and h: "fs s1 hm_output_path = file_after e hm_output_path a2 (fs s hm_output_path)"
    and i: "fs s1 it_output_path = file_after e it_output_path a3 (fs s it_output_path)"
    by (simp_all add: f1 output_paths_distinct)
  have "fs s2 q = fs s1 q" for q
    unfolding f2 by (simp add: t h i file_after_idem)
  then have same: "fs s2 = fs s1" by (rule ext)
  from renderings_artifacts [OF returns(1)] d obtain df where df: "read_excel e = Inr df"
    and a: "a1 = PNG (time_figure (time_frame (coerce_query_time e df))) 300"
      "a2 = MapHTML (built_map (groupby_station (heat_frame d1)))"
      "a3 = PlotHTML (interactive_figure (time_frame (coerce_query_time e d1)))"
    by blast
  have w1: "step_raises e s ts_output_path = None \<longrightarrow> fs s1 ts_output_path = Some a1"
    by (simp add: t file_after_no_raise)
  have w2: "step_raises e s hm_output_path = None \<longrightarrow> fs s1 hm_output_path = Some a2"
    by (simp add: h file_after_no_raise)
  have w3: "step_raises e s it_output_path = None \<longrightarrow> fs s1 it_output_path = Some a3"
    by (simp add: i file_after_no_raise)
  have m2': "main e s1 = Inr (d1, s2)" using m2 d by simp
  show ?thesis
    by (intro exI conjI) (rule df a f1 w1 w2 w3 m2' same)+
qed

lemma step_raises_logfile [simp]: "step_raises e (s\<lparr>logfile := l\<rparr>) p = step_raises e s p"
  by (simp add: step_raises_def)

lemma step_raises_no_io_errors [simp]: "step_raises (no_io_errors e) s p = None"
  by (simp add: step_raises_def no_io_errors_def)

lemma plotHeatMap_raises_same:
  assumes "plotHeatMap e df s = Inl x"
  shows "plotHeatMap (no_io_errors e) df s = Inl x"
proof -
  have q: "py_eval (no_io_errors e) = py_eval e" and m: "map_raises (no_io_errors e) = map_raises e"
    by (simp_all add: no_io_errors_def)
  show ?thesis
  proof (cases "add_coordinates e df")
    case (Inl y)
    with assms show ?thesis by (simp add: plotHeatMap_eq add_coordinates_same [OF q])
  next
    case (Inr dfc)
    with assms show ?thesis
      by (cases "map_raises e (map_center (groupby_station (heat_frame dfc)))")
        (simp_all add: plotHeatMap_eq add_coordinates_same [OF q] m)
  qed
qed

lemma plotHeatMap_step_raises:
  assumes "step_raises e s hm_output_path = Some msg" "plotHeatMap e df s = Inr (df', s')"
  shows "last (logfile s') = Debug (''An error occurred: '' @ msg)
         \<and> (fs s' = fs s \<or> fs s' = (fs s)(hm_output_path := None))"
proof -
  from assms(2) obtain dfc where co: "add_coordinates e df = Inr dfc"
    by (cases "add_coordinates e df") (simp_all add: plotHeatMap_eq)
  let ?avg = "groupby_station (heat_frame dfc)"
  let ?s = "s\<lparr>logfile := logfile s @ threshold_warnings ?avg\<rparr>"
  from assms(2) co have s': "s' = delete_then_save e hm_output_path (MapHTML (built_map ?avg))
      hm_saved ?s"
    by (cases "map_raises e (map_center ?avg)") (auto simp: plotHeatMap_eq)
  have "step_raises e ?s hm_output_path = Some msg" using assms(1) by simp
  from delete_then_save_raises [OF this, of "MapHTML (built_map ?avg)" hm_saved]
  show ?thesis unfolding s' by simp
qed

text \<open>
  C6. When the \<open>try\<close> block of a renderer meets an exception, the renderer still
  returns where it returns at all (plotTimeGraph and plotInteractive raise before that
  block exactly when Time Tag is no text column, plotHeatMap when a Location or the map
  centre is refused); the last log record is the error with the exception's message; and
  the files are as before, or as before without the renderer's own file: nothing is
  written. An exception leaves plotHeatMap or the whole run only if it also does when no
  file operation raises, so none comes from a save step; and in a run that returns, every
  renderer whose own save step meets no exception leaves the file it leaves in a run
  without any such exception, whatever happened in the other renderers.
\<close>

theorem save_exception_caught:
  "(step_raises e s ts_output_path = Some msg \<longrightarrow>
      (if text_column (map time_tag df) then
         (\<exists>s'. plotTimeGraph e df s = Inr (coerce_query_time e df, s')
            \<and> last (logfile s') = Debug (''An error occurred: '' @ msg)
            \<and> (fs s' = fs s \<or> fs s' = (fs s)(ts_output_path := None)))
       else plotTimeGraph e df s = Inl str_accessor_error))
   \<and> (step_raises e s hm_output_path = Some msg \<longrightarrow>
      (case plotHeatMap e df s of
         Inl x \<Rightarrow> plotHeatMap (no_io_errors e) df s = Inl x
       | Inr (df', s') \<Rightarrow>
           last (logfile s') = Debug (''An error occurred: '' @ msg)
           \<and> (fs s' = fs s \<or> fs s' = (fs s)(hm_output_path := None))))
   \<and> (step_raises e s it_output_path = Some msg \<longrightarrow>
      (if text_column (map time_tag df) then
         (\<exists>s'. plotInteractive e df s = Inr (df, s')
            \<and> last (logfile s') = Debug (''An error occurred: '' @ msg)
            \<and> (fs s' = fs s \<or> fs s' = (fs s)(it_output_path := None)))
       else plotInteractive e df s = Inl str_accessor_error))
   \<and> (main e s = Inl x \<longleftrightarrow> main (no_io_errors e) s = Inl x)
   \<and> (main e s = Inr (d, s1) \<and> main (no_io_errors e) s = Inr (d0, s0)
        \<and> p \<in> {ts_output_path, hm_output_path, it_output_path}
        \<and> step_raises e s p = None \<longrightarrow>
      fs s1 p = fs s0 p \<and> fs s0 p \<noteq> None)"
proof -
  have c1: "step_raises e s ts_output_path = Some msg \<longrightarrow>
      (if text_column (map time_tag df) then
         (\<exists>s'. plotTimeGraph e df s = Inr (coerce_query_time e df, s')
            \<and> last (logfile s') = Debug (''An error occurred: '' @ msg)
            \<and> (fs s' = fs s \<or> fs s' = (fs s)(ts_output_path := None)))
       else plotTimeGraph e df s = Inl str_accessor_error)"
  proof
    assume h: "step_raises e s ts_output_path = Some msg"
    show "if text_column (map time_tag df) then
         (\<exists>s'. plotTimeGraph e df s = Inr (coerce_query_time e df, s')
            \<and> last (logfile s') = Debug (''An error occurred: '' @ msg)
            \<and> (fs s' = fs s \<or> fs s' = (fs s)(ts_output_path := None)))
       else plotTimeGraph e df s = Inl str_accessor_error"
      using delete_then_save_raises [OF h] by (simp add: plotTimeGraph_def Let_def)
  qed
  have c2: "step_raises e s hm_output_path = Some msg \<longrightarrow>
      (case plotHeatMap e df s of
         Inl x \<Rightarrow> plotHeatMap (no_io_errors e) df s = Inl x
       | Inr (df', s') \<Rightarrow>
           last (logfile s') = Debug (''An error occurred: '' @ msg)
           \<and> (fs s' = fs s \<or> fs s' = (fs s)(hm_output_path := None)))"
  proof
    assume h: "step_raises e s hm_output_path = Some msg"
    show "case plotHeatMap e df s of
         Inl x \<Rightarrow> plotHeatMap (no_io_errors e) df s = Inl x
       | Inr (df', s') \<Rightarrow>
           last (logfile s') = Debug (''An error occurred: '' @ msg)
           \<and> (fs s' = fs s \<or> fs s' = (fs s)(hm_output_path := None))"
    proof (cases "plotHeatMap e df s")
      case (Inl y)
      then show ?thesis using plotHeatMap_raises_same by simp
    next
      case (Inr t)
      obtain df' s' where t: "t = (df', s')" by (cases t)
      with Inr plotHeatMap_step_raises [OF h] show ?thesis by simp
    qed
  qed
  have c3: "step_raises e s it_output_path = Some msg \<longrightarrow>
      (if text_column (map time_tag df) then
         (\<exists>s'. plotInteractive e df s = Inr (df, s')
            \<and> last (logfile s') = Debug (''An error occurred: '' @ msg)
            \<and> (fs s' = fs s \<or> fs s' = (fs s)(it_output_path := None)))
       else plotInteractive e df s = Inl str_accessor_error)"
  proof
    assume h: "step_raises e s it_output_path = Some msg"
    show "if text_column (map time_tag df) then
         (\<exists>s'. plotInteractive e df s = Inr (df, s')
            \<and> last (logfile s') = Debug (''An error occurred: '' @ msg)
            \<and> (fs s' = fs s \<or> fs s' = (fs s)(it_output_path := None)))
       else plotInteractive e df s = Inl str_accessor_error"
      using delete_then_save_raises [OF h] by (simp add: plotInteractive_def Let_def)
  qed
  have r: "renderings (no_io_errors e) = renderings e"
    by (rule renderings_same [OF same_data_no_io_errors])
  have c4: "main e s = Inl x \<longleftrightarrow> main (no_io_errors e) s = Inl x"
  proof (cases e rule: main_cases)
    case (raises y)
    then have "main (no_io_errors e) s = Inl y" using main_raises r by simp
    with raises show ?thesis by simp
  next
    case (returns d a1 a2 a3)
    then have "renderings (no_io_errors e) = Inr (d, a1, a2, a3)" using r by simp
    from main_returns [OF this, of s] returns(2) [of s] show ?thesis by auto
  qed
  have c5: "main e s = Inr (d, s1) \<and> main (no_io_errors e) s = Inr (d0, s0)
        \<and> p \<in> {ts_output_path, hm_output_path, it_output_path}
        \<and> step_raises e s p = None \<longrightarrow>
      fs s1 p = fs s0 p \<and> fs s0 p \<noteq> None"
  proof
    assume h: "main e s = Inr (d, s1) \<and> main (no_io_errors e) s = Inr (d0, s0)
        \<and> p \<in> {ts_output_path, hm_output_path, it_output_path}
        \<and> step_raises e s p = None"
    show "fs s1 p = fs s0 p \<and> fs s0 p \<noteq> None"
    proof (cases e rule: main_cases)
      case (raises y)
      with h show ?thesis by simp
    next
      case (returns d' a1 a2 a3)
      let ?e = "no_io_errors e"
      from returns(2) [of s] h have f1: "fs s1 = (fs s)
             (ts_output_path := file_after e ts_output_path a1 (fs s ts_output_path),
              hm_output_path := file_after e hm_output_path a2 (fs s hm_output_path),
              it_output_path := file_after e it_output_path a3 (fs s it_output_path))"
        by auto
      have "renderings ?e = Inr (d', a1, a2, a3)" using returns(1) r by simp
      from main_returns [OF this, of s] h have f0: "fs s0 = (fs s)
             (ts_output_path := file_after ?e ts_output_path a1 (fs s ts_output_path),
              hm_output_path := file_after ?e hm_output_path a2 (fs s hm_output_path),
              it_output_path := file_after ?e it_output_path a3 (fs s it_output_path))"
        by auto
      have n: "file_after e p a (fs s p) = Some a" "file_after ?e p a (fs s p) = Some a" for a
        using h file_after_no_raise [of e s p a] file_after_no_raise [of ?e s p a] by simp_all
      from h consider "p = ts_output_path" | "p = hm_output_path" | "p = it_output_path" by auto
      then show ?thesis
      proof cases
        case 1
        then show ?thesis using n by (simp add: f1 f0 output_paths_distinct)
      next
        case 2
        then show ?thesis using n by (simp add: f1 f0 output_paths_distinct)
      next
        case 3
        then show ?thesis using n by (simp add: f1 f0 output_paths_distinct)
      qed
    qed
  qed
  show ?thesis by (rule conjI c1 c2 c3 c4 c5)+
qed

lemma coerce_two_stations:
  "coerce_query_time (example_env x) two_stations =
     [observation shell NaT ''Morning'' 120 160,
      observation esso (Stamp noon) ''Noon'' 50 300,
      observation shell NaT ''Evening'' 140 180]"
  by (simp add: coerce_query_time_def Let_def two_stations_def observation_def
      shell_def esso_def example_env_def)

lemma add_coordinates_example:
  "add_coordinates (example_env x) (coerce_query_time (example_env x) two_stations) =
     Inr (located (coerce_query_time (example_env x) two_stations))"
  unfolding coerce_two_stations
  by (simp add: add_coordinates_def observation_def shell_def esso_def example_env_def
      set_latitude_def set_longitude_def located_def)

lemma groupby_example:
  "groupby_station (heat_frame (located (coerce_query_time (example_env x) two_stations))) =
     [station_row shell_key 130 170, station_row esso_key 100 250]"
proof -
  have "List.map_filter station_entry
          (heat_frame (located (coerce_query_time (example_env x) two_stations))) =
        [(shell_key, 120, 160), (esso_key, 100, 250), (shell_key, 140, 180)]"
    unfolding coerce_two_stations
    by (simp add: heat_frame_def dropna_prices_def clip_regular_def
        clip_premium_def clip_def located_def observation_def shell_def esso_def shell_key_def
        esso_key_def station_key_of_def station_entry_def List.map_filter_simps)
  then show ?thesis
    by (simp add: groupby_station_def key_order station_group_def mean_def
        shell_key_def esso_key_def)
qed

lemma renderings_example:
  "\<exists>a1 a2 a3. renderings (example_env two_stations) =
     Inr (located (coerce_query_time (example_env two_stations) two_stations), a1, a2, a3)"
proof -
  have r: "read_excel (example_env two_stations) = Inr two_stations"
    by (simp add: example_env_def)
  have m: "map_raises (example_env two_stations)
      (map_center [station_row shell_key 130 170, station_row esso_key 100 250]) = None"
    by (simp add: map_center_def series_mean_def example_env_def)
  have t: "text_column (map time_tag two_stations)"
    by (simp add: text_column_def two_stations_def observation_def shell_def esso_def)
  show ?thesis
    by (simp add: renderings_def r t add_coordinates_example groupby_example m Let_def)
qed

lemma same_data_disk_full: "same_data (example_env two_stations) disk_full_env"
  by (simp add: same_data_def disk_full_env_def)

lemma stale_files:
  "fs stale_state ts_output_path = Some (Other ''stale'')"
  "fs stale_state hm_output_path = Some (Other ''stale'')"
  "fs stale_state it_output_path = Some (Other ''stale'')"
  by (simp_all add: stale_state_def)

lemma step_raises_example [simp]: "step_raises (example_env x) s p = None"
  by (simp add: step_raises_def example_env_def)

text \<open>
  An instance: a run on the example table from a state that holds a stale file at each
  output path replaces all three by the artifacts it draws, and a second run leaves them
  the same.
\<close>

theorem rerun_same_outputs_witness:
  "\<exists>d1 s1 s2 a1 a2 a3.
     main (example_env two_stations) stale_state = Inr (d1, s1)
     \<and> fs stale_state ts_output_path = Some (Other ''stale'')
     \<and> fs stale_state hm_output_path = Some (Other ''stale'')
     \<and> fs stale_state it_output_path = Some (Other ''stale'')
     \<and> a1 = PNG (time_figure (time_frame
            (coerce_query_time (example_env two_stations) two_stations))) 300
     \<and> a2 = MapHTML (built_map (groupby_station (heat_frame d1)))
     \<and> a3 = PlotHTML (interactive_figure (time_frame
            (coerce_query_time (example_env two_stations) d1)))
     \<and> fs s1 ts_output_path = Some a1 \<and> fs s1 hm_output_path = Some a2
     \<and> fs s1 it_output_path = Some a3
     \<and> main (example_env two_stations) s1 = Inr (d1, s2) \<and> fs s2 = fs s1"
proof -
  let ?e = "example_env two_stations"
  obtain d b1 b2 b3 where "renderings ?e = Inr (d, b1, b2, b3)"
    using renderings_example by blast
  from main_returns [OF this, of stale_state]
  obtain s1 where m: "main ?e stale_state = Inr (d, s1)" by blast
  have r: "read_excel ?e = Inr two_stations" by (simp add: example_env_def)
  from rerun_same_outputs [OF m] obtain df a1 a2 a3 s2 where
    df: "read_excel ?e = Inr df"
    and a1: "a1 = PNG (time_figure (time_frame (coerce_query_time ?e df))) 300"
    and a2: "a2 = MapHTML (built_map (groupby_station (heat_frame d)))"
    and a3: "a3 = PlotHTML (interactive_figure (time_frame (coerce_query_time ?e d)))"
    and w1: "step_raises ?e stale_state ts_output_path = None \<longrightarrow>
             fs s1 ts_output_path = Some a1"
    and w2: "step_raises ?e stale_state hm_output_path = None \<longrightarrow>
             fs s1 hm_output_path = Some a2"
    and w3: "step_raises ?e stale_state it_output_path = None \<longrightarrow>
             fs s1 it_output_path = Some a3"
    and m2: "main ?e s1 = Inr (d, s2)" and same: "fs s2 = fs s1"
    by (elim exE conjE) (rule that)
  have "df = two_stations" using df r by simp
  then have a1': "a1 = PNG (time_figure (time_frame (coerce_query_time ?e two_stations))) 300"
    using a1 by simp
  have f1: "fs s1 ts_output_path = Some a1" using w1 by simp
  have f2: "fs s1 hm_output_path = Some a2" using w2 by simp
  have f3: "fs s1 it_output_path = Some a3" using w3 by simp
  show ?thesis
    by (intro exI conjI) (rule m stale_files a1' a2 a3 f1 f2 f3 m2 same)+
qed

text \<open>
  An instance: saving the time-series image raises; plotTimeGraph returns and logs the
  error, and the run still leaves the heat map and the interactive graph.
\<close>

theorem save_exception_caught_witness:
  "step_raises disk_full_env empty_state ts_output_path = Some ''disk full''
   \<and> (\<exists>s'. plotTimeGraph disk_full_env two_stations empty_state =
          Inr (coerce_query_time disk_full_env two_stations, s')
        \<and> last (logfile s') = Debug ''An error occurred: disk full''
        \<and> fs s' = fs empty_state)
   \<and> step_raises disk_full_env empty_state hm_output_path = None
   \<and> step_raises disk_full_env empty_state it_output_path = None
   \<and> (\<exists>d s1. main disk_full_env empty_state = Inr (d, s1)
        \<and> fs s1 hm_output_path \<noteq> None \<and> fs s1 it_output_path \<noteq> None)"
proof -
  let ?e = disk_full_env
  have t: "step_raises ?e empty_state ts_output_path = Some ''disk full''"
    by (simp add: step_raises_def disk_full_env_def empty_state_def)
  have h: "step_raises ?e empty_state hm_output_path = None"
    "step_raises ?e empty_state it_output_path = None"
    by (simp_all add: step_raises_def disk_full_env_def empty_state_def output_paths_distinct
        example_env_def)
  have e: "(fs empty_state)(ts_output_path := None) = fs empty_state"
    by (simp add: empty_state_def fun_eq_iff)
  have tc: "text_column (map time_tag two_stations)"
    by (simp add: text_column_def two_stations_def observation_def shell_def esso_def)
  obtain d a1 a2 a3 where r: "renderings (example_env two_stations) = Inr (d, a1, a2, a3)"
    using renderings_example by blast
  then have r1: "renderings ?e = Inr (d, a1, a2, a3)"
    using renderings_same [OF same_data_disk_full] by simp
  then have r0: "renderings (no_io_errors ?e) = Inr (d, a1, a2, a3)"
    using renderings_same [OF same_data_no_io_errors, of ?e] by simp
  obtain s1 where m1: "main ?e empty_state = Inr (d, s1)"
    using main_returns [OF r1, of empty_state] by blast
  obtain s0 where m0: "main (no_io_errors ?e) empty_state = Inr (d, s0)"
    using main_returns [OF r0, of empty_state] by blast
  note inst = save_exception_caught [where e = ?e and s = empty_state and msg = "''disk full''"
      and df = two_stations and d = d and ?s1.0 = s1 and ?d0.0 = d and ?s0.0 = s0]
  have a: "\<exists>s'. plotTimeGraph ?e two_stations empty_state =
          Inr (coerce_query_time ?e two_stations, s')
        \<and> last (logfile s') = Debug ''An error occurred: disk full''
        \<and> fs s' = fs empty_state"
    using inst t e tc by auto
  have b: "fs s1 hm_output_path \<noteq> None"
    using inst [where p = hm_output_path] m1 m0 h by simp
  have c: "fs s1 it_output_path \<noteq> None"
    using inst [where p = it_output_path] m1 m0 h by simp
  from t a h m1 b c show ?thesis by blast
qed

subsection \<open>The end-to-end scenario and the shared table\<close>

lemma normalized_tags:
  "str_strip (str_lower ''Morning'') = ''morning''"
  "str_strip (str_lower ''morning '') = ''morning''"
  "str_strip (str_lower ''Evening'') = ''evening''"
  by (simp_all add: str_strip_def str_lower_def lower_char_def is_space_def Let_def)

lemma scenario_entries:
  "List.map_filter (pivot_entry regular_price)
     (time_frame (coerce_query_time e (scenario st d t1 t2 t3)))
    = [((d, ''morning''), 110), ((d, ''morning''), 130), ((d, ''evening''), 999)]"
  "List.map_filter (pivot_entry premium_price)
     (time_frame (coerce_query_time e (scenario st d t1 t2 t3)))
    = [((d, ''morning''), 160), ((d, ''morning''), 180), ((d, ''evening''), 5)]"
  by (cases st; simp add: scenario_def observation_def time_frame_def coerce_query_time_def
      Let_def dropna_query_time_def add_date_def normalize_time_tag_def normalized_tags
      List.map_filter_simps pivot_entry_def)+

lemma scenario_group_mean:
  "group_mean [((d::date, ''morning''), 110), ((d, ''morning''), 130), ((d, ''evening''), 999)]
     = [((d, ''evening''), 999), ((d, ''morning''), 120)]"
  "group_mean [((d::date, ''morning''), 160), ((d, ''morning''), 180), ((d, ''evening''), 5)]
     = [((d, ''evening''), 5), ((d, ''morning''), 170)]"
  by (simp_all add: group_mean_def mean_def)

lemma scenario_heat_frame:
  "map regular_price (heat_frame (scenario st d t1 t2 t3)) = [Some 110, Some 130, Some 200]"
  "map premium_price (heat_frame (scenario st d t1 t2 t3)) = [Some 160, Some 180, Some 150]"
  by (cases st; simp add: scenario_def observation_def heat_frame_def dropna_prices_def
      clip_regular_def clip_premium_def clip_def)+

text \<open>
  C1, amended. For the three rows of the scenario, on one day, the pivots of plotTimeGraph
  have one \<open>morning\<close> cell with mean regular price 120 and mean premium price 170,
  and one \<open>evening\<close> cell holding the unclipped regular price 999 and premium price
  5. The clipping to 200 and 150 is applied to the third row only in the table
  plotHeatMap aggregates.
\<close>

theorem time_series_scenario:
  "pivot_table regular_price (time_frame (coerce_query_time e (scenario st d t1 t2 t3))) =
     \<lparr>pv_index = [d], pv_columns = [''evening'', ''morning''],
      pv_cells = [((d, ''evening''), 999), ((d, ''morning''), 120)]\<rparr>
   \<and> pivot_table premium_price (time_frame (coerce_query_time e (scenario st d t1 t2 t3))) =
     \<lparr>pv_index = [d], pv_columns = [''evening'', ''morning''],
      pv_cells = [((d, ''evening''), 5), ((d, ''morning''), 170)]\<rparr>
   \<and> map regular_price (heat_frame (scenario st d t1 t2 t3)) = [Some 110, Some 130, Some 200]
   \<and> map premium_price (heat_frame (scenario st d t1 t2 t3)) = [Some 160, Some 180, Some 150]"
  by (simp add: pivot_table_def scenario_entries scenario_group_mean scenario_heat_frame)

text \<open>
  The claim as stated fails: the \<open>evening\<close> cells of the pivots are not the means of
  the clipped prices 200 and 150.
\<close>

theorem time_series_scenario_not_clipped:
  "\<not> (map_of (pv_cells (pivot_table regular_price
            (time_frame (coerce_query_time (example_env []) scenario_table))))
          ((2025, 1, 2), ''evening'') = Some (mean [clip 100 200 999])
      \<and> map_of (pv_cells (pivot_table premium_price
            (time_frame (coerce_query_time (example_env []) scenario_table))))
          ((2025, 1, 2), ''evening'') = Some (mean [clip 150 250 5]))"
  by (simp add: scenario_table_def pivot_table_def scenario_entries scenario_group_mean
      mean_def clip_def)

lemma text_row_coerced:
  "coerce_query_time (example_env x) [text_row] = [text_row\<lparr>query_time := Stamp noon\<rparr>]"
  by (simp add: coerce_query_time_def Let_def text_row_def observation_def shell_def
      example_env_def)

lemma text_row_located:
  "add_coordinates (example_env x) [text_row\<lparr>query_time := q\<rparr>] =
     Inr [text_row\<lparr>query_time := q, latitude := Some 43, longitude := Some (- 79)\<rparr>]"
  by (simp add: add_coordinates_def text_row_def observation_def shell_def example_env_def
      set_latitude_def set_longitude_def)

lemma text_row_center:
  "map_raises (example_env x) (map_center (groupby_station (heat_frame
     [text_row\<lparr>query_time := q, latitude := Some 43, longitude := Some (- 79)\<rparr>]))) = None"
proof -
  have "groupby_station (heat_frame
     [text_row\<lparr>query_time := q, latitude := Some 43, longitude := Some (- 79)\<rparr>]) =
     [station_row shell_key 120 160]"
    by (simp add: groupby_station_def heat_frame_def dropna_prices_def clip_regular_def
        clip_premium_def clip_def text_row_def observation_def shell_def shell_key_def
        station_key_of_def station_entry_def List.map_filter_simps station_group_def mean_def)
  then show ?thesis
    by (simp add: map_center_def series_mean_def mean_def example_env_def shell_key_def)
qed

text \<open>
  C2. On a table of one row whose Query Time is a text that parses: plotTimeGraph leaves
  the caller's table with the timestamp parsed, plotHeatMap leaves it with the two
  coordinate columns added, plotInteractive leaves it as it was, and at the end of the run
  the loaded table carries both changes. So plotHeatMap and plotInteractive do receive
  the changes of the renderers before them.
\<close>

theorem renderers_share_table:
  "map_sum id fst (plotTimeGraph (example_env []) [text_row] empty_state) =
     Inr [text_row\<lparr>query_time := Stamp noon\<rparr>]
   \<and> map_sum id fst (plotHeatMap (example_env []) [text_row] empty_state) =
     Inr [text_row\<lparr>latitude := Some 43, longitude := Some (- 79)\<rparr>]
   \<and> map_sum id fst (plotInteractive (example_env []) [text_row] empty_state) = Inr [text_row]
   \<and> map_sum id fst (main (example_env [text_row]) empty_state) =
     Inr [text_row\<lparr>query_time := Stamp noon, latitude := Some 43, longitude := Some (- 79)\<rparr>]
   \<and> [text_row\<lparr>query_time := Stamp noon\<rparr>] \<noteq> [text_row]
   \<and> [text_row\<lparr>query_time := Stamp noon, latitude := Some 43, longitude := Some (- 79)\<rparr>]
       \<noteq> [text_row\<lparr>query_time := Stamp noon\<rparr>]"
proof (intro conjI)
  have tc: "text_column [time_tag text_row]"
    by (simp add: text_column_def text_row_def observation_def shell_def)
  show "map_sum id fst (plotTimeGraph (example_env []) [text_row] empty_state) =
     Inr [text_row\<lparr>query_time := Stamp noon\<rparr>]"
    by (simp add: plotTimeGraph_def Let_def text_row_coerced tc)
  have q: "text_row\<lparr>query_time := query_time text_row\<rparr> = text_row" by simp
  show "map_sum id fst (plotHeatMap (example_env []) [text_row] empty_state) =
     Inr [text_row\<lparr>latitude := Some 43, longitude := Some (- 79)\<rparr>]"
    using text_row_located [of "[]" "query_time text_row"]
      text_row_center [of "[]" "query_time text_row"]
    by (simp add: plotHeatMap_eq q)
  show "map_sum id fst (plotInteractive (example_env []) [text_row] empty_state) =
      Inr [text_row]"
    by (simp add: plotInteractive_def Let_def tc)
  have r: "read_excel (example_env [text_row]) = Inr [text_row]"
    by (simp add: example_env_def)
  show "map_sum id fst (main (example_env [text_row]) empty_state) =
     Inr [text_row\<lparr>query_time := Stamp noon, latitude := Some 43, longitude := Some (- 79)\<rparr>]"
    by (simp add: main_def r plotTimeGraph_def Let_def text_row_coerced plotHeatMap_eq
        text_row_located text_row_center plotInteractive_def tc)
  show "[text_row\<lparr>query_time := Stamp noon\<rparr>] \<noteq> [text_row]"
    by (simp add: text_row_def observation_def shell_def)
  show "[text_row\<lparr>query_time := Stamp noon, latitude := Some 43, longitude := Some (- 79)\<rparr>]
       \<noteq> [text_row\<lparr>query_time := Stamp noon\<rparr>]"
    by (simp add: text_row_def observation_def shell_def)
qed

end
